theory Spec2Isabelle
  imports Complex_Main "HOL-Library.Word"
begin

section \<open>JavaScript strings\<close>

text \<open>
  A JavaScript string is a sequence of UTF-16 code units; \<open>length\<close>, \<open>substring\<close> and
  regular expressions without the \<open>u\<close> flag all count code units. \<open>js\<close> writes an ASCII
  literal of the source as such a sequence.
\<close>

type_synonym jschar = "16 word"
type_synonym jsstring = "jschar list"

definition js :: "string \<Rightarrow> jsstring" where
  "js s = map of_char s"

text \<open>
  The class \<open>\s\<close> of a regular expression and the characters removed by
  \<open>String.prototype.trim\<close> are the same set: the WhiteSpace and LineTerminator code points
  of ECMAScript (TAB, LF, VT, FF, CR, SPACE, NBSP, U+1680, U+2000..U+200A, U+2028, U+2029,
  U+202F, U+205F, U+3000, U+FEFF).
\<close>

definition isWhiteSpace :: "jschar \<Rightarrow> bool" where
  "isWhiteSpace c \<longleftrightarrow>
     c \<in> {0x9, 0xA, 0xB, 0xC, 0xD, 0x20, 0xA0, 0x1680, 0x2028, 0x2029, 0x202F, 0x205F,
          0x3000, 0xFEFF}
     \<or> (0x2000 \<le> c \<and> c \<le> 0x200A)"

text \<open>\<open>s.trim()\<close>: whitespace is dropped at both ends.\<close>

definition trim :: "jsstring \<Rightarrow> jsstring" where
  "trim s = rev (dropWhile isWhiteSpace (rev (dropWhile isWhiteSpace s)))"

section \<open>File names (FileManager.sanitizeFileName)\<close>

text \<open>
  \<^verbatim>\<open>fileName.replace(/[<>:\"/\\|?*]/g, '_').replace(/\s+/g, ' ').trim()\<close>

  The same one-line body stands in \<open>FileManager.ts\<close>, in \<open>addByYAML.ts\<close> and in the first
  version of the plugin. The character class holds the nine characters
  \<open>< > : " / \ | ? *\<close>.
\<close>

definition isIllegalChar :: "jschar \<Rightarrow> bool" where
  "isIllegalChar c \<longleftrightarrow> c \<in> {0x3C, 0x3E, 0x3A, 0x22, 0x2F, 0x5C, 0x7C, 0x3F, 0x2A}"

text \<open>\<open>replace(/[...]/g, '_')\<close>: every character of the class becomes an underscore.\<close>

definition replaceIllegal :: "jsstring \<Rightarrow> jsstring" where
  "replaceIllegal s = map (\<lambda>c. if isIllegalChar c then 0x5F else c) s"

text \<open>
  \<open>replace(/\s+/g, ' ')\<close>: scanning from the left, each maximal run of whitespace (the
  quantifier is greedy) becomes one SPACE.
\<close>

function collapseWhiteSpace :: "jsstring \<Rightarrow> jsstring" where
  "collapseWhiteSpace [] = []"
| "collapseWhiteSpace (c # cs) =
     (if isWhiteSpace c then 0x20 # collapseWhiteSpace (dropWhile isWhiteSpace cs)
      else c # collapseWhiteSpace cs)"
  by pat_completeness auto
termination
  by (relation "measure length") (auto simp: le_imp_less_Suc length_dropWhile_le)

definition sanitizeFileName :: "jsstring \<Rightarrow> jsstring" where
  "sanitizeFileName fileName = trim (collapseWhiteSpace (replaceIllegal fileName))"

section \<open>Numbers as text\<close>

text \<open>
  The decimal digits of a natural number and of an integer, as \<open>String(n)\<close> and a
  template literal print them.
\<close>

function decimal :: "nat \<Rightarrow> jsstring" where
  "decimal n = (if n < 10 then [0x30 + of_nat n] else decimal (n div 10) @ [0x30 + of_nat (n mod 10)])"
  by pat_completeness auto
termination
  by (relation "measure id") auto

declare decimal.simps [simp del]

definition showInt :: "int \<Rightarrow> jsstring" where
  "showInt i = (if i < 0 then 0x2D # decimal (nat (- i)) else decimal (nat i))"

section \<open>Texts of the source\<close>

text \<open>
  The messages, titles and templates of the source, most of them Chinese, as code units.
  Each is named once here and quoted with its place in the source and an English gloss.
\<close>

text \<open>ApiCaller.ts 34, aiService.ts 88: the Jina AI API key is not set.\<close>

definition msgJinaKeyMissing :: jsstring where
  "msgJinaKeyMissing = js ''Jina AI API'' @ [0x5BC6, 0x94A5, 0x672A, 0x8BBE, 0x7F6E]"

text \<open>ApiCaller.ts 40, aiService.ts 95: invalid URL format.\<close>

definition msgInvalidUrl :: jsstring where
  "msgInvalidUrl = [0x65E0, 0x6548, 0x7684, 0x7F51, 0x5740, 0x683C, 0x5F0F]"

text \<open>ApiCaller.ts 44: the AI API key is not set.\<close>

definition msgAiKeyMissing :: jsstring where
  "msgAiKeyMissing = js ''AI API'' @ [0x5BC6, 0x94A5, 0x672A, 0x8BBE, 0x7F6E]"

text \<open>ApiCaller.ts 50: the AI API base URL is malformed.\<close>

definition msgAiBaseUrlInvalid :: jsstring where
  "msgAiBaseUrlInvalid = js ''AI API'' @ [0x57FA, 0x7840] @ js ''URL'' @ [0x683C, 0x5F0F,
     0x65E0, 0x6548]"

text \<open>ApiCaller.ts 57: Jina AI reader.\<close>

definition nameJinaReader :: jsstring where
  "nameJinaReader = js ''Jina AI '' @ [0x8BFB, 0x53D6, 0x5668]"

text \<open>ApiCaller.ts 58: Jina AI searcher.\<close>

definition nameJinaSearch :: jsstring where
  "nameJinaSearch = js ''Jina AI '' @ [0x641C, 0x7D22, 0x5668]"

text \<open>ApiCaller.ts 59: AI processor.\<close>

definition nameOpenai :: jsstring where
  "nameOpenai = js ''AI '' @ [0x5904, 0x7406, 0x5668]"

text \<open>ApiCaller.ts 101: the API key is invalid or expired.\<close>

definition msgKeyRejected :: jsstring where
  "msgKeyRejected = js '': API'' @ [0x5BC6, 0x94A5, 0x65E0, 0x6548, 0x6216, 0x5DF2, 0x8FC7,
     0x671F]"

text \<open>ApiCaller.ts 103: too many API requests, retry later.\<close>

definition msgRateLimited :: jsstring where
  "msgRateLimited = js '': API'' @ [0x8BF7, 0x6C42, 0x8FC7, 0x4E8E, 0x9891, 0x7E41, 0xFF0C,
     0x8BF7, 0x7A0D, 0x540E, 0x518D, 0x8BD5]"

text \<open>ApiCaller.ts 105: service temporarily unavailable, retry later.\<close>

definition msgUnavailable :: jsstring where
  "msgUnavailable = js '': '' @ [0x670D, 0x52A1, 0x6682, 0x65F6, 0x4E0D, 0x53EF, 0x7528, 0xFF0C,
     0x8BF7, 0x7A0D, 0x540E, 0x518D, 0x8BD5]"

text \<open>ApiCaller.ts 107: the API returned an error, status code.\<close>

definition msgBadStatus :: jsstring where
  "msgBadStatus = js '': API'' @ [0x8FD4, 0x56DE, 0x9519, 0x8BEF, 0xFF0C, 0x72B6, 0x6001,
     0x7801] @ js '': ''"

text \<open>ApiCaller.ts 112: AI bookmark generation failed.\<close>

definition msgAiFailed :: jsstring where
  "msgAiFailed = js ''AI'' @ [0x4E66, 0x7B7E, 0x751F, 0x6210, 0x5931, 0x8D25] @ js '': ''"

text \<open>ApiCaller.ts 114: AI bookmark generation failed: unknown error.\<close>

definition msgAiFailedUnknown :: jsstring where
  "msgAiFailedUnknown = js ''AI'' @ [0x4E66, 0x7B7E, 0x751F, 0x6210, 0x5931, 0x8D25] @ js '': ''
     @ [0x672A, 0x77E5, 0x9519, 0x8BEF]"

text \<open>ApiCaller.ts 136-139, aiService.ts 164-167: heading: page content.\<close>

definition promptContentHeader :: jsstring where
  "promptContentHeader = [0xA, 0xA] @ js ''## '' @ [0x7F51, 0x9875, 0x5185, 0x5BB9, 0xFF1A, 0xA]"

text \<open>ApiCaller.ts 140-142, aiService.ts 168-170: heading: search information.\<close>

definition promptSearchHeader :: jsstring where
  "promptSearchHeader = [0xA, 0xA] @ js ''## '' @ [0x641C, 0x7D22, 0x4FE1, 0x606F, 0xFF1A, 0xA]"

text \<open>ApiCaller.ts 143-145, aiService.ts 171-173: heading: target URL.\<close>

definition promptUrlHeader :: jsstring where
  "promptUrlHeader = [0xA, 0xA] @ js ''## '' @ [0x76EE, 0x6807, 0x7F51, 0x5740, 0xFF1A, 0xA]"

text \<open>aiService.ts 174-175: please generate the complete bookmark YAML from the above.\<close>

definition promptLegacyTail :: jsstring where
  "promptLegacyTail = [0xA, 0xA, 0x8BF7, 0x6839, 0x636E, 0x4EE5, 0x4E0A, 0x4FE1, 0x606F, 0x751F,
     0x6210, 0x5B8C, 0x6574, 0x7684, 0x4E66, 0x7B7E] @ js ''YAML'' @ [0x4FE1, 0x606F, 0x3002]"

text \<open>aiService.ts 101: site reviews, introduction.\<close>

definition searchQuerySuffix :: jsstring where
  "searchQuerySuffix = js '' '' @ [0x7F51, 0x7AD9, 0x8BC4, 0x4EF7] @ js '' '' @ [0x4ECB, 0x7ECD]"

text \<open>workflow.ts 92, 258: a workflow is running (.\<close>

definition msgRunningPrefix :: jsstring where
  "msgRunningPrefix = [0x5DE5, 0x4F5C, 0x6D41, 0x6B63, 0x5728, 0x8FD0, 0x884C, 0x4E2D] @
     js '' (''"

text \<open>workflow.ts 92, 258: ), please wait.\<close>

definition msgRunningSuffix :: jsstring where
  "msgRunningSuffix = js '')'' @ [0xFF0C, 0x8BF7, 0x7A0D, 0x5019] @ js ''...''"

text \<open>modal.ts, default title of progressMode: processing.\<close>

definition titleDefault :: jsstring where
  "titleDefault = [0x5904, 0x7406, 0x4E2D] @ js ''...''"

text \<open>workflow.ts 200: processing.\<close>

definition titleProcessing :: jsstring where
  "titleProcessing = [0x6B63, 0x5728, 0x5904, 0x7406, 0x4E2D] @ js ''...''"

text \<open>workflow.ts 139: processing finished.\<close>

definition titleDone :: jsstring where
  "titleDone = [0x5904, 0x7406, 0x5B8C, 0x6210, 0xFF01]"

text \<open>workflow.ts 143: all bookmarks created.\<close>

definition msgAllCreated :: jsstring where
  "msgAllCreated = [0x6240, 0x6709, 0x4E66, 0x7B7E, 0x521B, 0x5EFA, 0x5B8C, 0x6210, 0xFF01]"

text \<open>workflow.ts 145: batch finished, some bookmarks failed.\<close>

definition msgPartlyFailed :: jsstring where
  "msgPartlyFailed = [0x6279, 0x91CF, 0x5904, 0x7406, 0x5B8C, 0x6210, 0xFF0C, 0x90E8, 0x5206,
     0x4E66, 0x7B7E, 0x521B, 0x5EFA, 0x5931, 0x8D25]"

text \<open>workflow.ts 153, 297; types.ts, default message of WorkflowCancellationError: the workflow was cancelled.\<close>

definition msgCancelled :: jsstring where
  "msgCancelled = [0x5DE5, 0x4F5C, 0x6D41, 0x5DF2, 0x53D6, 0x6D88]"

text \<open>workflow.ts 155: batch processing failed.\<close>

definition msgBatchFailed :: jsstring where
  "msgBatchFailed = [0x6279, 0x91CF, 0x5904, 0x7406, 0x5931, 0x8D25] @ js '': ''"

text \<open>workflow.ts 155, 379: unknown error.\<close>

definition msgUnknownError :: jsstring where
  "msgUnknownError = [0x672A, 0x77E5, 0x9519, 0x8BEF]"

text \<open>workflow.ts 234, 290: bookmark created.\<close>

definition msgCreated :: jsstring where
  "msgCreated = [0x4E66, 0x7B7E, 0x521B, 0x5EFA, 0x6210, 0x529F, 0xFF01]"

text \<open>workflow.ts 241, 299: bookmark creation failed.\<close>

definition msgCreateFailed :: jsstring where
  "msgCreateFailed = [0x4E66, 0x7B7E, 0x521B, 0x5EFA, 0x5931, 0x8D25] @ js '': ''"

text \<open>workflow.ts 243, 301: bookmark creation failed: unknown error.\<close>

definition msgCreateFailedUnknown :: jsstring where
  "msgCreateFailedUnknown = [0x4E66, 0x7B7E, 0x521B, 0x5EFA, 0x5931, 0x8D25] @ js '': '' @
     [0x672A, 0x77E5, 0x9519, 0x8BEF]"

text \<open>workflow.ts 273: parsing the bookmark information failed: unknown error.\<close>

definition msgParseFailedNotice :: jsstring where
  "msgParseFailedNotice = [0x89E3, 0x6790, 0x4E66, 0x7B7E, 0x4FE1, 0x606F, 0x5931, 0x8D25] @
     js '': '' @ [0x672A, 0x77E5, 0x9519, 0x8BEF]"

text \<open>workflow.ts 346: the bookmark information lacks a title or a URL.\<close>

definition msgMissingTitleOrUrl :: jsstring where
  "msgMissingTitleOrUrl = [0x4E66, 0x7B7E, 0x4FE1, 0x606F, 0x4E2D, 0x7F3A, 0x5C11, 0x6807,
     0x9898, 0x6216] @ js ''URL''"

text \<open>workflow.ts 360: parsing the generated bookmark information failed.\<close>

definition msgParseFailed :: jsstring where
  "msgParseFailed = [0x89E3, 0x6790, 0x751F, 0x6210, 0x7684, 0x4E66, 0x7B7E, 0x4FE1, 0x606F,
     0x5931, 0x8D25]"

text \<open>workflow.ts 379: creating the bookmark note failed.\<close>

definition msgNoteFailed :: jsstring where
  "msgNoteFailed = [0x521B, 0x5EFA, 0x4E66, 0x7B7E, 0x7B14, 0x8BB0, 0x5931, 0x8D25] @ js '': ''"

text \<open>FileManager.ts 29: creating folder.\<close>

definition msgFolderPrefix :: jsstring where
  "msgFolderPrefix = [0x521B, 0x5EFA, 0x6587, 0x4EF6, 0x5939] @ js '' ''"

text \<open>FileManager.ts 29: failed.\<close>

definition msgFolderSuffix :: jsstring where
  "msgFolderSuffix = js '' '' @ [0x5931, 0x8D25]"

text \<open>FileManager.ts 121: screenshot download failed, status code.\<close>

definition msgShotStatus :: jsstring where
  "msgShotStatus = [0x622A, 0x56FE, 0x4E0B, 0x8F7D, 0x5931, 0x8D25, 0xFF0C, 0x72B6, 0x6001,
     0x7801] @ js '': ''"

text \<open>FileManager.ts 126: cannot download the site screenshot.\<close>

definition msgShotFailed :: jsstring where
  "msgShotFailed = [0x65E0, 0x6CD5, 0x4E0B, 0x8F7D, 0x7F51, 0x7AD9, 0x622A, 0x56FE] @ js '': ''"

text \<open>FileManager.ts 128: cannot download the site screenshot: unknown error.\<close>

definition msgShotFailedUnknown :: jsstring where
  "msgShotFailedUnknown = [0x65E0, 0x6CD5, 0x4E0B, 0x8F7D, 0x7F51, 0x7AD9, 0x622A, 0x56FE] @
     js '': '' @ [0x672A, 0x77E5, 0x9519, 0x8BEF]"

text \<open>FileManager.ts 161: error while building the note content.\<close>

definition msgBuildFailed :: jsstring where
  "msgBuildFailed = [0x6784, 0x5EFA, 0x7B14, 0x8BB0, 0x5185, 0x5BB9, 0x65F6, 0x51FA, 0x9519]"

text \<open>FileManager.ts 147: front matter opens.\<close>

definition noteOpen :: jsstring where
  "noteOpen = js ''---'' @ [0xA]"

text \<open>FileManager.ts 149-153: front matter closes; heading: site screenshot; the embed.\<close>

definition noteShot :: jsstring where
  "noteShot = [0xA] @ js ''---'' @ [0xA, 0xA] @ js ''## '' @ [0x7F51, 0x7AD9, 0x622A, 0x56FE,
     0xA, 0xA] @ js ''screenshot:: !['' @ [0x7F51, 0x7AD9, 0x622A, 0x56FE] @ js ''](''"

text \<open>FileManager.ts 153-156: heading: site notes.\<close>

definition noteBody :: jsstring where
  "noteBody = js '')'' @ [0xA, 0xA] @ js ''## '' @ [0x7F51, 0x7AD9, 0x7B14, 0x8BB0, 0xA, 0xA]"

section \<open>Thrown values\<close>

text \<open>
  What a \<open>throw\<close> or a rejected promise carries: an \<open>Error\<close> with its message (the
  built-in subclasses such as \<open>TypeError\<close> included), the plugin's own
  \<open>WorkflowCancellationError\<close> (a subclass of \<open>Error\<close>), or a value that is no
  \<open>Error\<close> at all.
\<close>

datatype exn = Error jsstring | WorkflowCancellationError jsstring | NonError

fun message :: "exn \<Rightarrow> jsstring" where
  "message (Error m) = m"
| "message (WorkflowCancellationError m) = m"
| "message NonError = []"

fun instanceofError :: "exn \<Rightarrow> bool" where
  "instanceofError NonError = False"
| "instanceofError _ = True"

fun instanceofCancellation :: "exn \<Rightarrow> bool" where
  "instanceofCancellation (WorkflowCancellationError _) = True"
| "instanceofCancellation _ = False"

text \<open>\<open>error instanceof Error ? `${prefix}${error.message}` : unknown\<close>\<close>

definition describe :: "jsstring \<Rightarrow> jsstring \<Rightarrow> exn \<Rightarrow> jsstring" where
  "describe prefix unknown error = (if instanceofError error then prefix @ message error else unknown)"

section \<open>The waiting list (waitlist.ts)\<close>

text \<open>
  The step table of \<open>steps.ts\<close>. Only the step name and the estimated time are kept; the
  title and the description are display texts.
\<close>

datatype stepStatus = pending | processing | completed | failed

datatype ProcessType = full | simple

record Step =
  name :: jsstring
  estimatedTime :: nat

definition allSteps :: "Step list" where
  "allSteps =
     [\<lparr>name = js ''get-web-content'', estimatedTime = 30\<rparr>,
      \<lparr>name = js ''get-web-rating'', estimatedTime = 60\<rparr>,
      \<lparr>name = js ''generate-bookmark-info'', estimatedTime = 60\<rparr>,
      \<lparr>name = js ''download-web-screenshot'', estimatedTime = 60\<rparr>,
      \<lparr>name = js ''create-bookmark-note'', estimatedTime = 10\<rparr>]"

text \<open>\<open>steps.full = allSteps\<close>, \<open>steps.simple = allSteps.slice(3)\<close>.\<close>

definition steps :: "ProcessType \<Rightarrow> Step list" where
  "steps t = (case t of full \<Rightarrow> allSteps | simple \<Rightarrow> drop 3 allSteps)"

text \<open>
  \<open>StepStatus\<close> and \<open>WaitlistItem\<close>. The item's field \<open>status\<close>, a
  \<open>Record<string, StepStatus>\<close>, is built as a plain object \<open>{}\<close>: the map \<open>statuses\<close>
  holds its own properties, from step names to step records. What the object inherits
  from \<open>Object.prototype\<close> is described below, with \<open>update\<close>.
\<close>

record StepStatus =
  step :: jsstring
  status :: stepStatus

record WaitlistItem =
  url :: jsstring
  statuses :: "jsstring \<rightharpoonup> StepStatus"

text \<open>
  The five event types and the payloads that \<open>emit\<close> is called with. The \<open>oldStatus\<close> of
  an \<open>update\<close> event is what was read before the assignment; it can be \<open>undefined\<close>
  (\<open>None\<close>).
\<close>

datatype EventType = addEvent | readEvent | removeEvent | clearEvent | updateEvent

datatype event =
    AddEvent jsstring ProcessType WaitlistItem nat
  | ReadEvent "WaitlistItem option" nat int
  | RemoveEvent WaitlistItem nat
  | ClearEvent nat
  | UpdateEvent jsstring jsstring "stepStatus option" stepStatus int nat

fun eventType :: "event \<Rightarrow> EventType" where
  "eventType (AddEvent _ _ _ _) = addEvent"
| "eventType (ReadEvent _ _ _) = readEvent"
| "eventType (RemoveEvent _ _) = removeEvent"
| "eventType (ClearEvent _) = clearEvent"
| "eventType (UpdateEvent _ _ _ _ _ _) = updateEvent"

text \<open>
  A listener is a function of the presenter. For the manager and its callers one thing
  about it matters: whether it returns or throws, because \<open>emit\<close> does not catch.
  \<open>reaction\<close> gives what the listener throws on an event, if anything; what it draws is
  left out. \<open>listenerId\<close> stands for the identity of the function object, which the
  \<open>Set\<close> of listeners compares.
\<close>

record listener =
  listenerId :: nat
  reaction :: "event \<Rightarrow> exn option"

text \<open>
  The manager: the array, the listeners of each event type in the order of their
  subscription, and, for stating what was emitted, the history \<open>emitted\<close> of the calls
  of \<open>emit\<close>.

  \<open>inheritedStatus\<close> is the one part of the rest of the heap that a method of the manager
  writes: the \<open>status\<close> properties that \<open>update\<close> has put on the built-in objects which
  every status object inherits from \<open>Object.prototype\<close>. The key is the inherited name that
  leads to the built-in; \<open>__proto__\<close> leads to \<open>Object.prototype\<close> itself. These objects are
  shared by all items.
\<close>

record WaitlistManager =
  waitlist :: "WaitlistItem list"
  listeners :: "EventType \<Rightarrow> listener list"
  emitted :: "event list"
  inheritedStatus :: "jsstring \<rightharpoonup> stepStatus"

text \<open>
  A method of the manager: what it returns (\<open>Inr\<close>) or throws (\<open>Inl\<close>), and the manager it
  leaves.
\<close>

type_synonym 'a queueMethod = "WaitlistManager \<Rightarrow> (exn + 'a) \<times> WaitlistManager"

text \<open>\<open>listeners.forEach(listener => listener(data))\<close>: the first throw ends the round.\<close>

fun callListeners :: "listener list \<Rightarrow> event \<Rightarrow> exn + unit" where
  "callListeners [] e = Inr ()"
| "callListeners (l # ls) e = (case reaction l e of Some x \<Rightarrow> Inl x | None \<Rightarrow> callListeners ls e)"

definition emit :: "event \<Rightarrow> unit queueMethod" where
  "emit e q = (callListeners (listeners q (eventType e)) e, q\<lparr>emitted := emitted q @ [e]\<rparr>)"

definition subscribe :: "EventType \<Rightarrow> listener \<Rightarrow> WaitlistManager \<Rightarrow> WaitlistManager" where
  "subscribe ev l q =
     (if listenerId l \<in> set (map listenerId (listeners q ev)) then q
      else q\<lparr>listeners := (listeners q)(ev := listeners q ev @ [l])\<rparr>)"

definition unsubscribe :: "EventType \<Rightarrow> listener \<Rightarrow> WaitlistManager \<Rightarrow> WaitlistManager" where
  "unsubscribe ev l q =
     q\<lparr>listeners := (listeners q)(ev := filter (\<lambda>k. listenerId k \<noteq> listenerId l) (listeners q ev))\<rparr>"

text \<open>
  \<open>this.waitlist[n]\<close>: reading a JavaScript array outside its bounds gives
  \<open>undefined\<close>; it does not throw. The index is an integer, negative ones included.
\<close>

definition itemAt :: "'a list \<Rightarrow> int \<Rightarrow> 'a option" where
  "itemAt xs n = (if 0 \<le> n \<and> n < int (length xs) then Some (xs ! nat n) else None)"

text \<open>The status object that \<open>add\<close> builds with \<open>forEach\<close> over the step list.\<close>

definition initialStatuses :: "ProcessType \<Rightarrow> (jsstring \<rightharpoonup> StepStatus)" where
  "initialStatuses t =
     foldl (\<lambda>m s. m(name s \<mapsto> \<lparr>step = name s, status = pending\<rparr>)) Map.empty (steps t)"

text \<open>
  In each method the array is changed first and the event emitted after: a listener that
  throws makes the method throw, with the change already made.
\<close>

definition add :: "jsstring \<Rightarrow> ProcessType \<Rightarrow> nat queueMethod" where
  "add u t q =
     (let item = \<lparr>url = u, statuses = initialStatuses t\<rparr>;
          q1 = q\<lparr>waitlist := waitlist q @ [item]\<rparr>
      in case emit (AddEvent u t item (length (waitlist q1))) q1 of
           (Inl x, q2) \<Rightarrow> (Inl x, q2)
         | (Inr _, q2) \<Rightarrow> (Inr (length (waitlist q2)), q2))"

definition read :: "int \<Rightarrow> (WaitlistItem option) queueMethod" where
  "read n q =
     (let item = itemAt (waitlist q) n
      in case emit (ReadEvent item (length (waitlist q)) n) q of
           (Inl x, q1) \<Rightarrow> (Inl x, q1)
         | (Inr _, q1) \<Rightarrow> (Inr item, q1))"

definition remove :: "(WaitlistItem option) queueMethod" where
  "remove q =
     (case waitlist q of
        [] \<Rightarrow> (Inr None, q)
      | item # rest \<Rightarrow>
          (case emit (RemoveEvent item (length rest)) (q\<lparr>waitlist := rest\<rparr>) of
             (Inl x, q1) \<Rightarrow> (Inl x, q1)
           | (Inr _, q1) \<Rightarrow> (Inr (Some item), q1)))"

definition clear :: "unit queueMethod" where
  "clear q = emit (ClearEvent 0) (q\<lparr>waitlist := []\<rparr>)"

text \<open>
  \<open>item.status[step]\<close> is a property read on a plain object: an own property first, and
  then the properties of \<open>Object.prototype\<close>. Those are eleven functions, the accessor
  \<open>__proto__\<close>, which gives \<open>Object.prototype\<close> itself, and, once \<open>update\<close> has written
  \<open>Object.prototype.status\<close>, that status text under the name \<open>status\<close>.
\<close>

definition inheritedFunctions :: "jsstring list" where
  "inheritedFunctions =
     [js ''constructor'', js ''__defineGetter__'', js ''__defineSetter__'', js ''hasOwnProperty'',
      js ''__lookupGetter__'', js ''__lookupSetter__'', js ''isPrototypeOf'',
      js ''propertyIsEnumerable'', js ''toString'', js ''valueOf'', js ''toLocaleString'']"

datatype property =
    OwnEntry StepStatus
  | BuiltinFunction jsstring
  | ObjectPrototype
  | StatusText stepStatus

definition getProperty :: "(jsstring \<rightharpoonup> stepStatus) \<Rightarrow> WaitlistItem \<Rightarrow> jsstring \<Rightarrow> property option" where
  "getProperty heap item stepName =
     (case statuses item stepName of
        Some entry \<Rightarrow> Some (OwnEntry entry)
      | None \<Rightarrow>
          if stepName = js ''__proto__'' then Some ObjectPrototype
          else if stepName \<in> set inheritedFunctions then Some (BuiltinFunction stepName)
          else if stepName = js ''status'' then map_option StatusText (heap (js ''__proto__''))
          else None)"

text \<open>
  \<open>f.status\<close> of a built-in function: its own property when \<open>update\<close> has written one, and
  otherwise what it inherits, through \<open>Function.prototype\<close>, from \<open>Object.prototype\<close>.
\<close>

definition functionStatus :: "(jsstring \<rightharpoonup> stepStatus) \<Rightarrow> jsstring \<Rightarrow> stepStatus option" where
  "functionStatus heap f = (case heap f of Some v \<Rightarrow> Some v | None \<Rightarrow> heap (js ''__proto__''))"

definition statusText :: "stepStatus \<Rightarrow> jsstring" where
  "statusText v =
     (case v of pending \<Rightarrow> js ''pending'' | processing \<Rightarrow> js ''processing''
      | completed \<Rightarrow> js ''completed'' | failed \<Rightarrow> js ''failed'')"

text \<open>
  The \<open>TypeError\<close> of an assignment to a property of a string, in strict code:
  \<open>Cannot create property 'status' on string '...'\<close>.
\<close>

definition cannotCreateProperty :: "stepStatus \<Rightarrow> exn" where
  "cannotCreateProperty v =
     Error (js ''Cannot create property '' @ [0x27] @ js ''status'' @ [0x27] @ js '' on string ''
            @ [0x27] @ statusText v @ [0x27])"

text \<open>
  \<open>update\<close>: the guard \<open>item && item.status[step]\<close> holds for every object found, own or
  inherited, and for the status text, a string that is not empty. Then \<open>oldStatus\<close> is
  read from what was found and the new status assigned to it: on the step record of the
  item, on a built-in function, on \<open>Object.prototype\<close>; on a string the assignment throws.
\<close>

definition update :: "jsstring \<Rightarrow> stepStatus \<Rightarrow> int \<Rightarrow> unit queueMethod" where
  "update stepName newStatus n q =
     (case itemAt (waitlist q) n of
        None \<Rightarrow> (Inr (), q)
      | Some item \<Rightarrow>
          (case getProperty (inheritedStatus q) item stepName of
             None \<Rightarrow> (Inr (), q)
           | Some (OwnEntry old) \<Rightarrow>
               emit (UpdateEvent (url item) stepName (Some (status old)) newStatus n (length (waitlist q)))
                 (q\<lparr>waitlist := (waitlist q)
                      [nat n := item\<lparr>statuses := (statuses item)(stepName \<mapsto> old\<lparr>status := newStatus\<rparr>)\<rparr>]\<rparr>)
           | Some (BuiltinFunction f) \<Rightarrow>
               emit (UpdateEvent (url item) stepName (functionStatus (inheritedStatus q) f) newStatus n
                       (length (waitlist q)))
                 (q\<lparr>inheritedStatus := (inheritedStatus q)(f \<mapsto> newStatus)\<rparr>)
           | Some ObjectPrototype \<Rightarrow>
               emit (UpdateEvent (url item) stepName (inheritedStatus q (js ''__proto__'')) newStatus n
                       (length (waitlist q)))
                 (q\<lparr>inheritedStatus := (inheritedStatus q)(js ''__proto__'' \<mapsto> newStatus)\<rparr>)
           | Some (StatusText v) \<Rightarrow> (Inl (cannotCreateProperty v), q)))"

text \<open>
  A run of \<open>add\<close> calls, one after the other; a call that throws has still added its
  item, and the next call follows.
\<close>

fun addAll :: "(jsstring \<times> ProcessType) list \<Rightarrow> WaitlistManager \<Rightarrow> WaitlistManager" where
  "addAll [] q = q"
| "addAll ((u, t) # calls) q = addAll calls (snd (add u t q))"

definition emptyWaitlist :: WaitlistManager where
  "emptyWaitlist = \<lparr>waitlist = [], listeners = (\<lambda>ev. []), emitted = [], inheritedStatus = Map.empty\<rparr>"

text \<open>The status of one step of one item, when the item exists and has the step as its own.\<close>

definition statusAt :: "WaitlistManager \<Rightarrow> int \<Rightarrow> jsstring \<Rightarrow> stepStatus option" where
  "statusAt q n stepName =
     (case itemAt (waitlist q) n of
        None \<Rightarrow> None
      | Some item \<Rightarrow> map_option status (statuses item stepName))"

definition userAgent :: jsstring where
  "userAgent = js ''Mozilla/5.0 (Windows NT 10.0; Win64; x64) AppleWebKit/537.36''"

definition screenshotService :: jsstring where
  "screenshotService =
     js ''https://image.thum.io/get/wait/12/viewportWidth/1600/width/1440/crop/900/png/noanimate/''"

section \<open>Values parsed from YAML\<close>

datatype jsnumber = Finite rat | PlusInfinity | MinusInfinity | NaN

datatype jsval =
    JUndefined
  | JNull
  | JBool bool
  | JNumber jsnumber
  | JString jsstring
  | JArray "jsval list"
  | JObject "(jsstring \<times> jsval) list"

text \<open>What \<open>!v\<close> and \<open>v || w\<close> test.\<close>

fun truthy :: "jsval \<Rightarrow> bool" where
  "truthy JUndefined = False"
| "truthy JNull = False"
| "truthy (JBool b) = b"
| "truthy (JNumber n) = (case n of Finite r \<Rightarrow> r \<noteq> 0 | NaN \<Rightarrow> False | _ \<Rightarrow> True)"
| "truthy (JString s) = (s \<noteq> [])"
| "truthy (JArray _) = True"
| "truthy (JObject _) = True"

definition orElse :: "jsval \<Rightarrow> jsval \<Rightarrow> jsval" where
  "orElse v w = (if truthy v then v else w)"

fun nullish :: "jsval \<Rightarrow> bool" where
  "nullish JUndefined = True"
| "nullish JNull = True"
| "nullish _ = False"

text \<open>
  \<open>v.key\<close> on a value that is neither \<open>null\<close> nor \<open>undefined\<close>, for the keys read in
  this program (\<open>title\<close>, \<open>url\<close>, \<open>description\<close>, \<open>tags\<close>, \<open>bookmarkNote\<close>), none
  of which a built-in prototype defines: an own property of an object, \<open>undefined\<close>
  otherwise.
\<close>

fun field :: "jsval \<Rightarrow> jsstring \<Rightarrow> jsval" where
  "field (JObject kvs) key = (case map_of kvs key of Some v \<Rightarrow> v | None \<Rightarrow> JUndefined)"
| "field _ key = JUndefined"

section \<open>Settings, requests and the surroundings of the plugin\<close>

record BookmarkCreatorSettings =
  bookmarkFolder :: jsstring
  attachmentFolder :: jsstring
  jinaApiKey :: jsstring
  aiApiBaseUrl :: jsstring
  aiApiModel :: jsstring
  aiApiKey :: jsstring
  aiPromptTemplate :: jsstring

datatype AiServiceType = jinaReader | jinaSearch | openai

record siteInfoObj =
  webContent :: jsstring
  searchInfo :: jsstring

text \<open>
  The argument of \<open>requestUrl\<close>. The body of the chat request is kept as the object
  handed to \<open>JSON.stringify\<close>; \<open>messages\<close> lists role and content.
\<close>

record chatBody =
  model :: jsstring
  messages :: "(jsstring \<times> jsstring) list"
  temperature :: rat
  max_tokens :: nat
  top_p :: rat

record request =
  reqUrl :: jsstring
  httpMethod :: jsstring
  headers :: "(jsstring \<times> jsstring) list"
  body :: "chatBody option"

record response =
  httpStatus :: int
  responseText :: jsstring
  arrayBuffer :: "8 word list"

record NoteContentData =
  created :: jsstring
  title :: jsval
  noteUrl :: jsval
  description :: jsval
  tags :: jsval
  screenshotFileName :: jsstring
  bookmarkNote :: jsval

text \<open>
  Everything the plugin calls but does not define: the network, the vault, the clock,
  the user, and library functions of the runtime and of Obsidian. \<open>'w\<close> is the state of
  the outside world. A call that can throw or reject returns \<open>Inl\<close> of what it throws.

  \<^item> \<open>requestUrl\<close>: Obsidian's HTTP client.
  \<^item> \<open>cancelClicked\<close>: whether the user has pressed the modal's cancel button while the
    last call was awaited (\<open>handleCancel\<close> runs between two steps of the workflow).
  \<^item> \<open>parseURL\<close>: \<open>new URL(s).hostname\<close>; the constructor throws on a malformed URL.
  \<^item> \<open>encodeURIComponent\<close>, \<open>parseYaml\<close>, \<open>stringifyYaml\<close>: as named.
  \<^item> \<open>responseContent\<close>: \<open>JSON.parse(response.text)\<close> with the selection of the content
    in \<open>callApi\<close>, lines 91 to 99 (\<open>data.choices?.[0]?.message?.content\<close> for \<open>openai\<close>,
    \<open>data.data?.content || data?.data?.toString() || data.content\<close> for the two Jina
    services, \<open>''\<close> when that is falsy, then \<open>content.trim()\<close>).
  \<^item> \<open>legacyContent\<close>: \<open>JSON.parse(response.text)\<close> with
    \<open>data.data?.content || data.content || ''\<close>, in \<open>searchWebInfo\<close>.
  \<^item> \<open>typeError\<close>: the \<open>TypeError\<close> of the runtime (a member of \<open>undefined\<close>, a call
    of what is no function).
  \<^item> \<open>toStringOf\<close>: the conversion of a value that is no string inside a template
    literal.
  \<^item> \<open>matchDelimited\<close>, \<open>matchYamlFence\<close>, \<open>matchFence\<close>: the first capture group of
    \<open>String.prototype.match\<close> with the three regular expressions of
    \<open>parseGeneratedYaml\<close>, \<open>/-{3,}\s*\n([\s\S]*?)\n-{3,}/\<close>,
    \<open>/`{3,}ya?ml\s*\n([\s\S]*?)`{3,}/i\<close> and \<open>/`{3,}\s*\n([\s\S]*?)`{3,}/\<close>;
    \<open>None\<close> when there is no match.
  \<^item> \<open>toISOString\<close>, \<open>getTime\<close>: \<open>new Date()\<close> read both ways.
  \<^item> \<open>adapterExists\<close>, \<open>createFolder\<close>, \<open>getAbstractFileByPath\<close> (whether it finds a
    file), \<open>vaultCreate\<close> (the path of the file made), \<open>createBinary\<close>: the vault.
\<close>

record 'w env =
  requestUrl :: "request \<Rightarrow> 'w \<Rightarrow> (exn + response) \<times> 'w"
  cancelClicked :: "'w \<Rightarrow> bool"
  parseURL :: "jsstring \<Rightarrow> exn + jsstring"
  encodeURIComponent :: "jsstring \<Rightarrow> exn + jsstring"
  responseContent :: "AiServiceType \<Rightarrow> jsstring \<Rightarrow> exn + jsstring"
  legacyContent :: "jsstring \<Rightarrow> exn + jsstring"
  typeError :: exn
  toStringOf :: "jsval \<Rightarrow> exn + jsstring"
  matchDelimited :: "jsstring \<Rightarrow> jsstring option"
  matchYamlFence :: "jsstring \<Rightarrow> jsstring option"
  matchFence :: "jsstring \<Rightarrow> jsstring option"
  parseYaml :: "jsstring \<Rightarrow> exn + jsval"
  stringifyYaml :: "jsstring \<times> jsval \<times> jsval \<times> jsval \<times> jsval \<Rightarrow> exn + jsstring"
  toISOString :: "'w \<Rightarrow> jsstring"
  getTime :: "'w \<Rightarrow> nat"
  adapterExists :: "jsstring \<Rightarrow> 'w \<Rightarrow> (exn + bool) \<times> 'w"
  createFolder :: "jsstring \<Rightarrow> 'w \<Rightarrow> (exn + unit) \<times> 'w"
  getAbstractFileByPath :: "jsstring \<Rightarrow> 'w \<Rightarrow> bool"
  vaultCreate :: "jsstring \<Rightarrow> jsstring \<Rightarrow> 'w \<Rightarrow> (exn + jsstring) \<times> 'w"
  createBinary :: "jsstring \<Rightarrow> 8 word list \<Rightarrow> 'w \<Rightarrow> (exn + unit) \<times> 'w"

text \<open>\<open>`${v}`\<close>: a string stands for itself.\<close>

definition toStr :: "'w env \<Rightarrow> jsval \<Rightarrow> exn + jsstring" where
  "toStr env v = (case v of JString s \<Rightarrow> Inr s | _ \<Rightarrow> toStringOf env v)"

section \<open>The state of the plugin\<close>

text \<open>
  What the user sees: notices and the calls made on the modal, in order.
\<close>

datatype ui_event =
    Notice jsstring
  | ModalOpen
  | ProgressMode bool jsstring
  | SetCreatedNotes "jsstring list"
  | SetTitle jsstring

text \<open>
  The four static fields of \<open>BookmarkWorkflow\<close> (shared by all instances), the
  singleton \<open>waitlist\<close>, the \<open>createdNotes\<close> of the instance at work, the user
  interface and the outside world.
\<close>

record 'w state =
  isWorkflowRunning :: bool
  runningInstanceId :: "jsstring option"
  isCancellationRequested :: bool
  cancellingInstanceId :: "jsstring option"
  queue :: WaitlistManager
  createdNotes :: "jsstring list"
  ui :: "ui_event list"
  world :: 'w

text \<open>The fields of an instance that never change after its construction.\<close>

record BookmarkWorkflow =
  instanceId :: jsstring
  settings :: BookmarkCreatorSettings

text \<open>
  An asynchronous method: from a state to what it returns (\<open>Inr\<close>) or throws (\<open>Inl\<close>),
  and the state it leaves.
\<close>

type_synonym ('a, 'w) action = "'w state \<Rightarrow> (exn + 'a) \<times> 'w state"

definition ret :: "'a \<Rightarrow> ('a, 'w) action" where
  "ret x = (\<lambda>s. (Inr x, s))"

definition throw :: "exn \<Rightarrow> ('a, 'w) action" where
  "throw e = (\<lambda>s. (Inl e, s))"

text \<open>One statement after another: a throw skips what follows.\<close>

definition andThen :: "('a, 'w) action \<Rightarrow> ('a \<Rightarrow> ('b, 'w) action) \<Rightarrow> ('b, 'w) action" where
  "andThen m f = (\<lambda>s. case m s of (Inl e, s') \<Rightarrow> (Inl e, s') | (Inr x, s') \<Rightarrow> f x s')"

text \<open>\<open>try { m } catch (error) { h error }\<close>\<close>

definition tryCatch :: "('a, 'w) action \<Rightarrow> (exn \<Rightarrow> ('a, 'w) action) \<Rightarrow> ('a, 'w) action" where
  "tryCatch m h = (\<lambda>s. case m s of (Inl e, s') \<Rightarrow> h e s' | (Inr x, s') \<Rightarrow> (Inr x, s'))"

text \<open>\<open>try { m } finally { f }\<close>, for a \<open>finally\<close> block that only assigns.\<close>

definition tryFinally :: "('a, 'w) action \<Rightarrow> ('w state \<Rightarrow> 'w state) \<Rightarrow> ('a, 'w) action" where
  "tryFinally m f = (\<lambda>s. case m s of (r, s') \<Rightarrow> (r, f s'))"

text \<open>A synchronous computation that does not touch the state.\<close>

definition lift :: "exn + 'a \<Rightarrow> ('a, 'w) action" where
  "lift r = (\<lambda>s. (r, s))"

definition show_ui :: "ui_event \<Rightarrow> (unit, 'w) action" where
  "show_ui e = (\<lambda>s. (Inr (), s\<lparr>ui := ui s @ [e]\<rparr>))"

subsection \<open>Cancellation\<close>

text \<open>
  \<open>requestCancellation\<close> tests \<open>runningInstanceId\<close> for truth: \<open>null\<close> and the empty
  string both fail.
\<close>

definition requestCancellation :: "'w state \<Rightarrow> 'w state" where
  "requestCancellation s =
     (if isWorkflowRunning s \<and> (case runningInstanceId s of Some i \<Rightarrow> i \<noteq> [] | None \<Rightarrow> False)
      then s\<lparr>isCancellationRequested := True, cancellingInstanceId := runningInstanceId s\<rparr>
      else s)"

definition shouldCancel :: "BookmarkWorkflow \<Rightarrow> 'w state \<Rightarrow> bool" where
  "shouldCancel this s \<longleftrightarrow>
     isCancellationRequested s \<and> cancellingInstanceId s = Some (instanceId this)"

definition resetCancellationState :: "'w state \<Rightarrow> 'w state" where
  "resetCancellationState s = s\<lparr>isCancellationRequested := False, cancellingInstanceId := None\<rparr>"

text \<open>
  \<open>await call\<close>: the call runs in the outside world; while the workflow is suspended
  the modal's cancel button can be pressed, and its handler calls
  \<open>requestCancellation\<close>.
\<close>

definition await :: "'w env \<Rightarrow> ('w \<Rightarrow> (exn + 'a) \<times> 'w) \<Rightarrow> ('a, 'w) action" where
  "await env call =
     (\<lambda>s. case call (world s) of
        (r, w) \<Rightarrow>
          (r, if cancelClicked env w then requestCancellation (s\<lparr>world := w\<rparr>) else s\<lparr>world := w\<rparr>))"

section \<open>The AI service (ApiCaller.ts)\<close>

text \<open>
  \<open>generateBookmarkYaml\<close>: the page content is cut at 2000 code units and the search
  text at 8000, each followed by \<open>...\<close> when cut, and both are set into the prompt.
\<close>

definition truncate :: "nat \<Rightarrow> jsstring \<Rightarrow> jsstring" where
  "truncate maxLength s = (if length s > maxLength then take maxLength s @ js ''...'' else s)"

definition prompt :: "BookmarkCreatorSettings \<Rightarrow> jsstring \<Rightarrow> jsstring \<Rightarrow> jsstring \<Rightarrow> jsstring" where
  "prompt st link content search =
     (let truncatedWebContent = truncate 2000 content;
          truncatedSearchInfo = truncate 8000 search
      in aiPromptTemplate st @ promptContentHeader @ truncatedWebContent
           @ promptSearchHeader @ truncatedSearchInfo @ promptUrlHeader @ link @ [0xA])"

definition chatRequest :: "BookmarkCreatorSettings \<Rightarrow> jsstring \<Rightarrow> request" where
  "chatRequest st content =
     \<lparr>reqUrl = aiApiBaseUrl st @ js ''/chat/completions'',
      httpMethod = js ''POST'',
      headers = [(js ''Authorization'', js ''Bearer '' @ aiApiKey st),
                 (js ''Content-Type'', js ''application/json''),
                 (js ''User-Agent'', userAgent)],
      body = Some \<lparr>model = aiApiModel st, messages = [(js ''user'', content)],
                    temperature = 3 / 10, max_tokens = 1500, top_p = 9 / 10\<rparr>\<rparr>"

definition generateBookmarkYaml ::
  "'w env \<Rightarrow> BookmarkCreatorSettings \<Rightarrow> jsstring \<Rightarrow> jsstring \<Rightarrow> jsstring \<Rightarrow> (response, 'w) action" where
  "generateBookmarkYaml env st link content search =
     await env (requestUrl env (chatRequest st (prompt st link content search)))"

definition jinaRequest :: "BookmarkCreatorSettings \<Rightarrow> jsstring \<Rightarrow> request" where
  "jinaRequest st target =
     \<lparr>reqUrl = target,
      httpMethod = js ''GET'',
      headers = [(js ''Authorization'', js ''Bearer '' @ jinaApiKey st),
                 (js ''Accept'', js ''application/json''),
                 (js ''User-Agent'', userAgent)],
      body = None\<rparr>"

definition typeNames :: "AiServiceType \<Rightarrow> jsstring" where
  "typeNames t = (case t of jinaReader \<Rightarrow> nameJinaReader | jinaSearch \<Rightarrow> nameJinaSearch
                  | openai \<Rightarrow> nameOpenai)"

text \<open>Lines 64 to 88 of \<open>callApi\<close>: the request of each service.\<close>

definition sendRequest ::
  "'w env \<Rightarrow> BookmarkCreatorSettings \<Rightarrow> jsstring \<Rightarrow> AiServiceType \<Rightarrow> siteInfoObj option
     \<Rightarrow> (response, 'w) action" where
  "sendRequest env st link type siteInfo =
     (case type of
        jinaReader \<Rightarrow>
          andThen (lift (encodeURIComponent env link))
            (\<lambda>encoded. await env (requestUrl env (jinaRequest st (js ''https://r.jina.ai/'' @ encoded))))
      | jinaSearch \<Rightarrow>
          andThen (lift (parseURL env link))
            (\<lambda>domain. andThen (lift (encodeURIComponent env domain))
              (\<lambda>encoded. await env (requestUrl env (jinaRequest st (js ''https://s.jina.ai/'' @ encoded)))))
      | openai \<Rightarrow>
          (case siteInfo of
             None \<Rightarrow> throw (typeError env)
           | Some info \<Rightarrow> generateBookmarkYaml env st link (webContent info) (searchInfo info)))"

text \<open>Lines 90 to 108: what is made of the response.\<close>

definition readResponse :: "'w env \<Rightarrow> AiServiceType \<Rightarrow> response \<Rightarrow> (jsstring, 'w) action" where
  "readResponse env type response =
     (let serviceName = typeNames type in
      if httpStatus response = 200 then lift (responseContent env type (responseText response))
      else if httpStatus response = 401 then throw (Error (serviceName @ msgKeyRejected))
      else if httpStatus response = 429 then throw (Error (serviceName @ msgRateLimited))
      else if httpStatus response \<ge> 500 then throw (Error (serviceName @ msgUnavailable))
      else throw (Error (serviceName @ msgBadStatus @ showInt (httpStatus response))))"

text \<open>
  \<open>callApi\<close>. The type \<open>AiServiceType\<close> has three members, so the last \<open>else\<close> of the
  validation (an unknown type) has no input. A missing key is a falsy one: the empty
  string.
\<close>

definition callApi ::
  "'w env \<Rightarrow> BookmarkCreatorSettings \<Rightarrow> jsstring \<Rightarrow> AiServiceType \<Rightarrow> siteInfoObj option
     \<Rightarrow> (jsstring, 'w) action" where
  "callApi env st link type siteInfo =
     (let request =
        tryCatch
          (andThen (sendRequest env st link type siteInfo) (readResponse env type))
          (\<lambda>error. throw (Error (describe msgAiFailed msgAiFailedUnknown error)))
      in if type = jinaReader \<or> type = jinaSearch then
           (if jinaApiKey st = [] then throw (Error msgJinaKeyMissing)
            else if isl (parseURL env link) then throw (Error msgInvalidUrl)
            else request)
         else
           (if aiApiKey st = [] then throw (Error msgAiKeyMissing)
            else if isl (parseURL env (aiApiBaseUrl st)) then throw (Error msgAiBaseUrlInvalid)
            else request))"

section \<open>The earlier AI service (aiService.ts)\<close>

text \<open>
  \<open>searchWebInfo\<close>, lines 86 to 133. The search is optional there: every branch after
  the two checks returns a string.
\<close>

definition searchWebInfo ::
  "'w env \<Rightarrow> BookmarkCreatorSettings \<Rightarrow> jsstring \<Rightarrow> (jsstring, 'w) action" where
  "searchWebInfo env st link =
     (if jinaApiKey st = [] then throw (Error msgJinaKeyMissing)
      else if isl (parseURL env link) then throw (Error msgInvalidUrl)
      else
        tryCatch
          (andThen (lift (parseURL env link))
            (\<lambda>domain. andThen (lift (encodeURIComponent env (domain @ searchQuerySuffix)))
              (\<lambda>encoded.
                 andThen (await env (requestUrl env (jinaRequest st (js ''https://s.jina.ai/'' @ encoded))))
                   (\<lambda>response.
                      if httpStatus response = 200 then lift (legacyContent env (responseText response))
                      else if httpStatus response = 401 then ret []
                      else if httpStatus response = 429 then ret []
                      else ret []))))
          (\<lambda>error. ret []))"

text \<open>
  The prompt of the earlier \<open>generateBookmarkYaml\<close>, lines 155 to 175: the limits are
  8000 for the page content and 2000 for the search text, and a closing sentence
  follows the URL.
\<close>

definition legacyPrompt :: "BookmarkCreatorSettings \<Rightarrow> jsstring \<Rightarrow> jsstring \<Rightarrow> jsstring \<Rightarrow> jsstring" where
  "legacyPrompt st link content search =
     (let maxContentLength = 8000;
          truncatedWebContent = truncate maxContentLength content;
          truncatedSearchInfo = truncate 2000 search
      in aiPromptTemplate st @ promptContentHeader @ truncatedWebContent
           @ promptSearchHeader @ truncatedSearchInfo @ promptUrlHeader @ link @ promptLegacyTail)"

text \<open>The request it sends (lines 178 to 198) is the same chat request.\<close>

definition legacyChatRequest ::
  "BookmarkCreatorSettings \<Rightarrow> jsstring \<Rightarrow> jsstring \<Rightarrow> jsstring \<Rightarrow> request" where
  "legacyChatRequest st link content search =
     chatRequest st (legacyPrompt st link content search)"

section \<open>The file manager (FileManager.ts)\<close>

fun splitOn :: "jschar \<Rightarrow> jsstring \<Rightarrow> jsstring list" where
  "splitOn sep [] = [[]]"
| "splitOn sep (c # cs) =
     (if c = sep then [] # splitOn sep cs
      else (case splitOn sep cs of [] \<Rightarrow> [[c]] | p # ps \<Rightarrow> (c # p) # ps))"

fun joinWith :: "jsstring \<Rightarrow> jsstring list \<Rightarrow> jsstring" where
  "joinWith sep [] = []"
| "joinWith sep [p] = p"
| "joinWith sep (p # ps) = p @ sep @ joinWith sep ps"

definition ensureFolderExists :: "'w env \<Rightarrow> jsstring \<Rightarrow> (bool, 'w) action" where
  "ensureFolderExists env folderPath =
     andThen (await env (adapterExists env folderPath))
       (\<lambda>isExist.
          tryCatch
            (if \<not> isExist then andThen (await env (createFolder env folderPath)) (\<lambda>_. ret True)
             else ret False)
            (\<lambda>error. andThen (show_ui (Notice (msgFolderPrefix @ folderPath @ msgFolderSuffix)))
               (\<lambda>_. ret False)))"

text \<open>
  \<open>ensureFileCanBeCreated\<close>: a path in use gets the last six digits of the clock's
  milliseconds before its extension.
\<close>

definition timestampedPath :: "nat \<Rightarrow> jsstring \<Rightarrow> jsstring" where
  "timestampedPath now filePath =
     (let digits = decimal now;
          timestamp = drop (length digits - 6) digits;
          pathParts = splitOn 0x2F filePath;
          fileName = last pathParts;
          folderPath = joinWith (js ''/'') (butlast pathParts);
          nameParts = splitOn 0x2E fileName;
          extension = (if length nameParts > 1 then last nameParts else []);
          baseName = joinWith (js ''.'') (if length nameParts > 1 then butlast nameParts else nameParts);
          newFileName = baseName @ js ''_'' @ timestamp @ js ''.'' @ extension
      in if folderPath \<noteq> [] then folderPath @ js ''/'' @ newFileName else newFileName)"

definition ensureFileCanBeCreated :: "'w env \<Rightarrow> jsstring \<Rightarrow> (jsstring, 'w) action" where
  "ensureFileCanBeCreated env filePath =
     (\<lambda>s. if \<not> getAbstractFileByPath env filePath (world s) then (Inr filePath, s)
          else (Inr (timestampedPath (getTime env (world s)) filePath), s))"

text \<open>
  \<open>createNoteFile\<close>. The title comes from parsed YAML: \<open>sanitizeFileName\<close> calls
  \<open>replace\<close> on it, which only a string has.
\<close>

definition createNoteFile ::
  "'w env \<Rightarrow> BookmarkCreatorSettings \<Rightarrow> jsval \<Rightarrow> jsstring \<Rightarrow> (jsstring, 'w) action" where
  "createNoteFile env st noteTitle noteText =
     (case noteTitle of
        JString t \<Rightarrow>
          (let safeTitle = sanitizeFileName t;
               fileName = safeTitle @ js ''.md'';
               filePath = bookmarkFolder st @ js ''/'' @ fileName
           in andThen (ensureFileCanBeCreated env filePath)
                (\<lambda>finalFilePath. await env (vaultCreate env finalFilePath noteText)))
      | _ \<Rightarrow> throw (typeError env))"

definition downloadScreenshot ::
  "'w env \<Rightarrow> BookmarkCreatorSettings \<Rightarrow> jsval \<Rightarrow> jsval \<Rightarrow> (jsstring, 'w) action" where
  "downloadScreenshot env st link noteTitle =
     andThen (lift (toStr env link))
       (\<lambda>urlText.
          let screenshotUrl = screenshotService @ urlText in
          tryCatch
            (andThen (ensureFolderExists env (attachmentFolder st))
               (\<lambda>_. case noteTitle of
                      JString t \<Rightarrow>
                        (let screenshotFileName = sanitizeFileName t @ js ''.png'';
                             filePath = attachmentFolder st @ js ''/'' @ screenshotFileName
                         in andThen
                              (await env (requestUrl env
                                 \<lparr>reqUrl = screenshotUrl, httpMethod = js ''GET'',
                                  headers = [(js ''User-Agent'', userAgent)], body = None\<rparr>))
                              (\<lambda>response.
                                 if httpStatus response = 200 then
                                   andThen (await env (createBinary env filePath (arrayBuffer response)))
                                     (\<lambda>_. ret screenshotFileName)
                                 else throw (Error (msgShotStatus @ showInt (httpStatus response)))))
                    | _ \<Rightarrow> throw (typeError env)))
            (\<lambda>error. throw (Error (describe msgShotFailed msgShotFailedUnknown error))))"

definition buildNoteContent ::
  "'w env \<Rightarrow> BookmarkCreatorSettings \<Rightarrow> NoteContentData \<Rightarrow> exn + jsstring" where
  "buildNoteContent env st data =
     (let frontmatter = (created data, title data, noteUrl data, description data, tags data);
          built =
            (case stringifyYaml env frontmatter of
               Inl e \<Rightarrow> Inl e
             | Inr yaml \<Rightarrow>
                 (case encodeURIComponent env (screenshotFileName data) of
                    Inl e \<Rightarrow> Inl e
                  | Inr encoded \<Rightarrow>
                      (case toStr env (orElse (bookmarkNote data) (JString [])) of
                         Inl e \<Rightarrow> Inl e
                       | Inr note \<Rightarrow>
                           Inr (noteOpen @ yaml @ noteShot @ attachmentFolder st @ js ''/'' @ encoded
                                  @ noteBody @ note @ [0xA]))))
      in case built of Inl error \<Rightarrow> Inl (Error msgBuildFailed) | Inr built_text \<Rightarrow> Inr built_text)"

section \<open>The workflow (workflow.ts)\<close>

subsection \<open>parseGeneratedYaml\<close>

text \<open>
  The YAML is cut out of the text by the first of three patterns that matches, parsed,
  and read into a record. Everything stands in one \<open>try\<close>, whose \<open>catch\<close> replaces
  whatever was thrown by one fixed error.
\<close>

definition cleanYaml :: "'w env \<Rightarrow> jsstring \<Rightarrow> jsstring" where
  "cleanYaml env yamlContent =
     (case matchDelimited env yamlContent of
        Some inner \<Rightarrow> trim inner
      | None \<Rightarrow>
          (case matchYamlFence env yamlContent of
             Some inner \<Rightarrow> trim inner
           | None \<Rightarrow>
               (case matchFence env yamlContent of
                  Some inner \<Rightarrow> trim inner
                | None \<Rightarrow> yamlContent)))"

definition readNoteData :: "'w env \<Rightarrow> jsstring \<Rightarrow> jsval \<Rightarrow> exn + NoteContentData" where
  "readNoteData env now parsedYaml =
     (if nullish parsedYaml then Inl (typeError env)
      else if \<not> truthy (field parsedYaml (js ''title'')) \<or> \<not> truthy (field parsedYaml (js ''url''))
      then Inl (Error msgMissingTitleOrUrl)
      else
        (case toStr env (field parsedYaml (js ''title'')) of
           Inl e \<Rightarrow> Inl e
         | Inr titleText \<Rightarrow>
             Inr \<lparr>created = now,
                  title = field parsedYaml (js ''title''),
                  noteUrl = field parsedYaml (js ''url''),
                  description = orElse (field parsedYaml (js ''description'')) (JString []),
                  tags = orElse (field parsedYaml (js ''tags'')) (JArray []),
                  screenshotFileName = titleText @ js ''.png'',
                  bookmarkNote = orElse (field parsedYaml (js ''bookmarkNote'')) (JString [])\<rparr>))"

definition parseGeneratedYaml :: "'w env \<Rightarrow> jsstring \<Rightarrow> (NoteContentData, 'w) action" where
  "parseGeneratedYaml env yamlContent =
     (\<lambda>s. let attempt =
               (case parseYaml env (cleanYaml env yamlContent) of
                  Inl e \<Rightarrow> Inl e
                | Inr parsedYaml \<Rightarrow> readNoteData env (toISOString env (world s)) parsedYaml)
          in (case attempt of
                Inl error \<Rightarrow> Inl (Error msgParseFailed)
              | Inr noteData \<Rightarrow> Inr noteData, s))"

subsection \<open>createBookmarkNote\<close>

definition createBookmarkNote ::
  "'w env \<Rightarrow> BookmarkWorkflow \<Rightarrow> NoteContentData \<Rightarrow> (unit, 'w) action" where
  "createBookmarkNote env this noteData =
     tryCatch
       (andThen (lift (buildNoteContent env (settings this) noteData))
          (\<lambda>noteText. andThen (createNoteFile env (settings this) (title noteData) noteText)
             (\<lambda>path s. (Inr (), s\<lparr>createdNotes := createdNotes s @ [path]\<rparr>))))
       (\<lambda>error. throw (Error (msgNoteFailed
                    @ (if instanceofError error then message error else msgUnknownError))))"

subsection \<open>executeStep\<close>

text \<open>A call of a method of the waiting list.\<close>

definition onQueue :: "'a queueMethod \<Rightarrow> ('a, 'w) action" where
  "onQueue f = (\<lambda>s. case f (queue s) of (r, q) \<Rightarrow> (r, s\<lparr>queue := q\<rparr>))"

text \<open>
  \<open>waitlist.update(stepId, ...)\<close> is called with two arguments: the index is its
  default, 0.
\<close>

definition executeStep :: "BookmarkWorkflow \<Rightarrow> jsstring \<Rightarrow> ('a, 'w) action \<Rightarrow> ('a, 'w) action" where
  "executeStep this stepId stepFunction =
     (\<lambda>s. if shouldCancel this s then (Inl (WorkflowCancellationError msgCancelled), s)
          else
            tryCatch
              (andThen (onQueue (update stepId processing 0))
                 (\<lambda>_. andThen stepFunction
                    (\<lambda>result. andThen (onQueue (update stepId completed 0)) (\<lambda>_. ret result))))
              (\<lambda>error. andThen (onQueue (update stepId failed 0)) (\<lambda>_. throw error))
              s)"

subsection \<open>URLWorkflow\<close>

definition progressTitle :: "'w env \<Rightarrow> jsstring \<Rightarrow> nat \<Rightarrow> nat \<Rightarrow> exn + jsstring" where
  "progressTitle env link currentIndex count =
     (case parseURL env link of
        Inl e \<Rightarrow> Inl e
      | Inr host \<Rightarrow>
          Inr (titleProcessing
               @ (if count > 1 then js '' ('' @ decimal (currentIndex + 1) @ js ''/'' @ decimal count @ js '')''
                  else [])
               @ js '' '' @ host))"

definition URLWorkflow :: "'w env \<Rightarrow> BookmarkWorkflow \<Rightarrow> jsstring \<Rightarrow> nat \<Rightarrow> (bool, 'w) action" where
  "URLWorkflow env this link currentIndex =
     tryCatch
       (andThen (\<lambda>s. lift (progressTitle env link currentIndex (length (waitlist (queue s)))) s)
       (\<lambda>titleText. andThen (show_ui (ProgressMode True titleText))
       (\<lambda>_. andThen (executeStep this (js ''get-web-content'')
                      (callApi env (settings this) link jinaReader None))
       (\<lambda>content. andThen (executeStep this (js ''get-web-rating'')
                      (callApi env (settings this) link jinaSearch None))
       (\<lambda>search. andThen (executeStep this (js ''generate-bookmark-info'')
                      (callApi env (settings this) link openai
                         (Some \<lparr>webContent = content, searchInfo = search\<rparr>)))
       (\<lambda>bookmarkYaml. andThen (parseGeneratedYaml env bookmarkYaml)
       (\<lambda>parsed. let noteData = parsed\<lparr>noteUrl := JString link\<rparr> in
          andThen (executeStep this (js ''download-web-screenshot'')
                      (downloadScreenshot env (settings this) (JString link) (title noteData)))
       (\<lambda>fileName. andThen (executeStep this (js ''create-bookmark-note'')
                      (createBookmarkNote env this (noteData\<lparr>screenshotFileName := fileName\<rparr>)))
       (\<lambda>_. andThen (show_ui (Notice msgCreated))
       (\<lambda>_. ret True))))))))))
       (\<lambda>error. andThen (show_ui (Notice (describe msgCreateFailed msgCreateFailedUnknown error)))
          (\<lambda>_. ret False))"

subsection \<open>startURLWorkflow\<close>

text \<open>
  One turn of the \<open>while\<close> loop, up to \<open>currentIndex++\<close>; it returns the new value of
  \<open>hasError\<close>.
\<close>

definition iteration :: "'w env \<Rightarrow> BookmarkWorkflow \<Rightarrow> nat \<Rightarrow> bool \<Rightarrow> (bool, 'w) action" where
  "iteration env this currentIndex hasError =
     (\<lambda>s. if shouldCancel this s then (Inl (WorkflowCancellationError msgCancelled), s)
          else
            andThen (onQueue (read (int currentIndex)))
              (\<lambda>found. case found of
                 None \<Rightarrow> ret hasError
               | Some item \<Rightarrow>
                   tryCatch
                     (andThen (URLWorkflow env this (url item) currentIndex) (\<lambda>_. ret hasError))
                     (\<lambda>error. ret True))
              s)"

definition queueLength :: "'w state \<Rightarrow> nat" where
  "queueLength s = length (waitlist (queue s))"

text \<open>
  The loop ends because nothing that runs inside it changes the length of the waiting
  list: \<open>update\<close> and \<open>read\<close> keep it, and the steps do not touch the list.
\<close>

definition keepsQueueLength :: "('a, 'w) action \<Rightarrow> bool" where
  "keepsQueueLength m \<longleftrightarrow> (\<forall>s. queueLength (snd (m s)) = queueLength s)"

lemma kql_ret: "keepsQueueLength (ret x)"
  and kql_throw: "keepsQueueLength (throw e)"
  and kql_lift: "keepsQueueLength (lift r)"
  and kql_show_ui: "keepsQueueLength (show_ui ev)"
  by (simp_all add: keepsQueueLength_def ret_def throw_def lift_def show_ui_def queueLength_def)

lemma kql_andThen:
  assumes "keepsQueueLength m" and "\<And>x. keepsQueueLength (f x)"
  shows "keepsQueueLength (andThen m f)"
  unfolding keepsQueueLength_def andThen_def
proof
  fix s
  obtain r s' where ms: "m s = (r, s')" by (cases "m s")
  have 1: "queueLength s' = queueLength s"
    using assms(1) ms by (auto simp: keepsQueueLength_def dest: spec [of _ s])
  show "queueLength (snd (case m s of (Inl e, s') \<Rightarrow> (Inl e, s') | (Inr x, s') \<Rightarrow> f x s')) = queueLength s"
  proof (cases r)
    case (Inl e)
    then show ?thesis using ms 1 by simp
  next
    case (Inr x)
    have "queueLength (snd (f x s')) = queueLength s'"
      using assms(2) [of x] by (simp add: keepsQueueLength_def)
    then show ?thesis using ms 1 Inr by simp
  qed
qed

lemma kql_tryCatch:
  assumes "keepsQueueLength m" and "\<And>e. keepsQueueLength (h e)"
  shows "keepsQueueLength (tryCatch m h)"
  unfolding keepsQueueLength_def tryCatch_def
proof
  fix s
  obtain r s' where ms: "m s = (r, s')" by (cases "m s")
  have 1: "queueLength s' = queueLength s"
    using assms(1) ms by (auto simp: keepsQueueLength_def dest: spec [of _ s])
  show "queueLength (snd (case m s of (Inl e, s') \<Rightarrow> h e s' | (Inr x, s') \<Rightarrow> (Inr x, s'))) = queueLength s"
  proof (cases r)
    case (Inl e)
    have "queueLength (snd (h e s')) = queueLength s'"
      using assms(2) [of e] by (simp add: keepsQueueLength_def)
    then show ?thesis using ms 1 Inl by simp
  next
    case (Inr x)
    then show ?thesis using ms 1 by simp
  qed
qed

lemma kql_if:
  assumes "keepsQueueLength m" and "keepsQueueLength n"
  shows "keepsQueueLength (if b then m else n)"
  using assms by simp

lemma queueLength_requestCancellation: "queueLength (requestCancellation s) = queueLength s"
  by (simp add: requestCancellation_def queueLength_def)

lemma kql_await: "keepsQueueLength (await env call)"
  by (auto simp: keepsQueueLength_def await_def queueLength_requestCancellation split: prod.splits)
     (simp add: queueLength_def)

lemma length_emit: "length (waitlist (snd (emit e q))) = length (waitlist q)"
  by (simp add: emit_def)

lemma length_update: "length (waitlist (snd (update stepName newStatus n q))) = length (waitlist q)"
  by (simp add: update_def length_emit split: option.splits property.splits)

lemma length_read: "length (waitlist (snd (read n q))) = length (waitlist q)"
  by (simp add: read_def emit_def Let_def split: sum.splits)

lemma kql_onQueue:
  assumes "\<And>q. length (waitlist (snd (f q))) = length (waitlist q)"
  shows "keepsQueueLength (onQueue f)"
  using assms by (simp add: keepsQueueLength_def onQueue_def queueLength_def split: prod.splits)
     (metis snd_conv)

lemma kql_update: "keepsQueueLength (onQueue (update stepName newStatus n))"
  by (rule kql_onQueue) (rule length_update)

lemma kql_read: "keepsQueueLength (onQueue (read n))"
  by (rule kql_onQueue) (rule length_read)

lemmas kql_intros =
  kql_ret kql_throw kql_lift kql_show_ui kql_andThen kql_tryCatch kql_await kql_update kql_if

lemma kql_executeStep:
  assumes "keepsQueueLength stepFunction"
  shows "keepsQueueLength (executeStep this stepId stepFunction)"
proof -
  have "keepsQueueLength
     (tryCatch
        (andThen (onQueue (update stepId processing 0))
           (\<lambda>_. andThen stepFunction
              (\<lambda>result. andThen (onQueue (update stepId completed 0)) (\<lambda>_. ret result))))
        (\<lambda>error. andThen (onQueue (update stepId failed 0)) (\<lambda>_. throw error)))"
    by (intro kql_intros assms)
  then show ?thesis
    by (simp add: keepsQueueLength_def executeStep_def)
qed

lemma kql_generateBookmarkYaml: "keepsQueueLength (generateBookmarkYaml env st link content search)"
  by (simp add: generateBookmarkYaml_def kql_await)

lemma kql_sendRequest: "keepsQueueLength (sendRequest env st link type siteInfo)"
  unfolding sendRequest_def
  by (cases type; cases siteInfo; simp; intro kql_intros kql_generateBookmarkYaml)

lemma kql_readResponse: "keepsQueueLength (readResponse env type response)"
  unfolding readResponse_def Let_def by (intro kql_intros)

lemma kql_callApi: "keepsQueueLength (callApi env st link type siteInfo)"
  unfolding callApi_def Let_def by (intro kql_intros kql_sendRequest kql_readResponse)

lemma kql_parseGeneratedYaml: "keepsQueueLength (parseGeneratedYaml env yamlContent)"
  by (simp add: keepsQueueLength_def parseGeneratedYaml_def Let_def)

lemma kql_ensureFolderExists: "keepsQueueLength (ensureFolderExists env folderPath)"
  unfolding ensureFolderExists_def by (intro kql_intros)

lemma kql_downloadScreenshot: "keepsQueueLength (downloadScreenshot env st link noteTitle)"
  unfolding downloadScreenshot_def Let_def
  by (cases noteTitle; simp; intro kql_intros kql_ensureFolderExists)

lemma kql_ensureFileCanBeCreated: "keepsQueueLength (ensureFileCanBeCreated env filePath)"
  by (simp add: keepsQueueLength_def ensureFileCanBeCreated_def)

lemma kql_createNoteFile: "keepsQueueLength (createNoteFile env st noteTitle noteText)"
  unfolding createNoteFile_def Let_def
  by (cases noteTitle; simp; intro kql_intros kql_ensureFileCanBeCreated)

lemma kql_pushNote: "keepsQueueLength (\<lambda>s. (Inr (), s\<lparr>createdNotes := createdNotes s @ [path]\<rparr>))"
  by (simp add: keepsQueueLength_def queueLength_def)

lemma kql_createBookmarkNote: "keepsQueueLength (createBookmarkNote env this noteData)"
  unfolding createBookmarkNote_def
  by (intro kql_intros kql_createNoteFile kql_pushNote)

lemma kql_progressTitle:
  "keepsQueueLength (\<lambda>s. lift (progressTitle env link currentIndex (length (waitlist (queue s)))) s)"
  by (simp add: keepsQueueLength_def lift_def)

lemma kql_URLWorkflow: "keepsQueueLength (URLWorkflow env this link currentIndex)"
  unfolding URLWorkflow_def Let_def
  by (intro kql_intros kql_progressTitle kql_executeStep kql_callApi kql_parseGeneratedYaml
        kql_downloadScreenshot kql_createBookmarkNote)

lemma kql_iteration: "keepsQueueLength (iteration (env :: 'w env) this currentIndex hasError)"
proof -
  have "keepsQueueLength
     (andThen (onQueue (read (int currentIndex)))
        (\<lambda>found. case found of
           None \<Rightarrow> ret hasError
         | Some item \<Rightarrow>
             tryCatch
               (andThen (URLWorkflow env this (url item) currentIndex) (\<lambda>_. ret hasError))
               (\<lambda>error. ret True)))"
    by (intro kql_andThen kql_read) (auto split: option.splits intro!: kql_intros kql_URLWorkflow)
  then show ?thesis
    by (simp add: keepsQueueLength_def iteration_def)
qed

lemma iteration_queueLength:
  "(r, s') = iteration env this currentIndex hasError s \<Longrightarrow> queueLength s' = queueLength s"
  using kql_iteration [of env this currentIndex hasError]
  by (metis keepsQueueLength_def snd_conv)

function batchLoop :: "'w env \<Rightarrow> BookmarkWorkflow \<Rightarrow> nat \<Rightarrow> bool \<Rightarrow> (bool, 'w) action" where
  "batchLoop env this currentIndex hasError s =
     (if currentIndex < queueLength s then
        (case iteration env this currentIndex hasError s of
           (Inl e, s') \<Rightarrow> (Inl e, s')
         | (Inr hasError', s') \<Rightarrow> batchLoop env this (currentIndex + 1) hasError' s')
      else (Inr hasError, s))"
  by pat_completeness auto
termination
  by (relation "measure (\<lambda>(env, this, currentIndex, hasError, s). queueLength s - currentIndex)")
     (auto dest!: iteration_queueLength)

declare batchLoop.simps [simp del]

text \<open>Taking and releasing the lock; the \<open>finally\<close> block also resets the cancellation.\<close>

definition acquire :: "BookmarkWorkflow \<Rightarrow> 'w state \<Rightarrow> 'w state" where
  "acquire this s = s\<lparr>isWorkflowRunning := True, runningInstanceId := Some (instanceId this)\<rparr>"

definition release :: "'w state \<Rightarrow> 'w state" where
  "release s = resetCancellationState (s\<lparr>isWorkflowRunning := False, runningInstanceId := None\<rparr>)"

text \<open>The notice of a refused start; \<open>null\<close> prints as \<open>null\<close>.\<close>

definition runningNotice :: "'w state \<Rightarrow> ui_event" where
  "runningNotice s =
     Notice (msgRunningPrefix
             @ (case runningInstanceId s of Some i \<Rightarrow> i | None \<Rightarrow> js ''null'')
             @ msgRunningSuffix)"

definition startURLWorkflow :: "'w env \<Rightarrow> BookmarkWorkflow \<Rightarrow> (bool, 'w) action" where
  "startURLWorkflow env this =
     (\<lambda>s. if isWorkflowRunning s then andThen (show_ui (runningNotice s)) (\<lambda>_. ret False) s
          else
            tryFinally
              (tryCatch
                 (andThen (show_ui ModalOpen)
                 (\<lambda>_. andThen (show_ui (ProgressMode True titleDefault))
                 (\<lambda>_. andThen (batchLoop env this 0 False)
                 (\<lambda>hasError. andThen (onQueue clear)
                 (\<lambda>_. andThen (\<lambda>s'. show_ui (SetCreatedNotes (createdNotes s')) s')
                 (\<lambda>_. andThen (show_ui (SetTitle titleDone))
                 (\<lambda>_. andThen (show_ui (Notice (if \<not> hasError then msgAllCreated else msgPartlyFailed)))
                 (\<lambda>_. ret (\<not> hasError)))))))))
                 (\<lambda>error. andThen
                    (show_ui (Notice (if instanceofCancellation error then msgCancelled
                                      else msgBatchFailed
                                           @ (if instanceofError error then message error
                                              else msgUnknownError))))
                    (\<lambda>_. ret False)))
              release
              (acquire this s))"

subsection \<open>startYAMLWorkflow\<close>

text \<open>
  The inner \<open>catch\<close> of the parse returns \<open>false\<close> from the method; the \<open>finally\<close>
  block still runs.
\<close>

definition startYAMLWorkflow :: "'w env \<Rightarrow> BookmarkWorkflow \<Rightarrow> jsstring \<Rightarrow> (bool, 'w) action" where
  "startYAMLWorkflow env this yamlContent =
     (\<lambda>s. if isWorkflowRunning s then andThen (show_ui (runningNotice s)) (\<lambda>_. ret False) s
          else
            tryFinally
              (tryCatch
                 (\<lambda>s1. case parseGeneratedYaml env yamlContent s1 of
                     (Inl error, s2) \<Rightarrow>
                       andThen (show_ui (Notice msgParseFailedNotice)) (\<lambda>_. ret False) s2
                   | (Inr noteData, s2) \<Rightarrow>
                       (andThen (show_ui (ProgressMode False titleDefault))
                       (\<lambda>_. andThen (executeStep this (js ''download-web-screenshot'')
                                (downloadScreenshot env (settings this) (noteUrl noteData) (title noteData)))
                       (\<lambda>fileName. andThen (executeStep this (js ''create-bookmark-note'')
                                (createBookmarkNote env this (noteData\<lparr>screenshotFileName := fileName\<rparr>)))
                       (\<lambda>_. andThen (show_ui (Notice msgCreated))
                       (\<lambda>_. ret True))))) s2)
                 (\<lambda>error. andThen
                    (show_ui (Notice (if instanceofCancellation error then msgCancelled
                                      else describe msgCreateFailed msgCreateFailedUnknown error)))
                    (\<lambda>_. ret False)))
              release
              (acquire this s))"

section \<open>A small world to run the model in\<close>

text \<open>
  A stand-in for the surroundings, used to run the definitions on concrete inputs. The
  network answers by the function \<open>net\<close>, the YAML parser by \<open>yaml\<close>; the world counts
  the requests made, and the user presses cancel once \<open>cancelAfter\<close> requests are
  done.
\<close>

definition unreserved :: "jschar \<Rightarrow> bool" where
  "unreserved c \<longleftrightarrow>
     (0x41 \<le> c \<and> c \<le> 0x5A) \<or> (0x61 \<le> c \<and> c \<le> 0x7A) \<or> (0x30 \<le> c \<and> c \<le> 0x39)
     \<or> c \<in> {0x2D, 0x5F, 0x2E, 0x21, 0x7E, 0x2A, 0x27, 0x28, 0x29}"

definition hexDigit :: "jschar \<Rightarrow> jschar" where
  "hexDigit n = (if n < 10 then 0x30 + n else 0x37 + n)"

definition percentByte :: "jschar \<Rightarrow> jsstring" where
  "percentByte b = [0x25, hexDigit (drop_bit 4 b), hexDigit (take_bit 4 b)]"

text \<open>A code unit outside the unreserved set is written as the bytes of its UTF-8 form.\<close>

definition encodeUnit :: "jschar \<Rightarrow> jsstring" where
  "encodeUnit c =
     (if unreserved c then [c]
      else if c < 0x80 then percentByte c
      else if c < 0x800 then percentByte (0xC0 + drop_bit 6 c) @ percentByte (0x80 + take_bit 6 c)
      else percentByte (0xE0 + drop_bit 12 c) @ percentByte (0x80 + take_bit 6 (drop_bit 6 c))
             @ percentByte (0x80 + take_bit 6 c))"

text \<open>
  A surrogate on its own makes \<open>encodeURIComponent\<close> throw; this stand-in throws on every
  surrogate, so it is right for text of the Basic Multilingual Plane.
\<close>

definition percentEncode :: "jsstring \<Rightarrow> exn + jsstring" where
  "percentEncode s =
     (if list_ex (\<lambda>c. 0xD800 \<le> c \<and> c \<le> 0xDFFF) s then Inl (Error (js ''URI malformed''))
      else Inr (concat (map encodeUnit s)))"

definition hostOf :: "jsstring \<Rightarrow> exn + jsstring" where
  "hostOf u =
     (if take 8 u = js ''https://'' \<and> drop 8 u \<noteq> []
      then Inr (takeWhile (\<lambda>c. c \<noteq> 0x2F) (drop 8 u))
      else Inl (Error (js ''Invalid URL'')))"

definition sampleEnv ::
  "(request \<Rightarrow> exn + response) \<Rightarrow> (jsstring \<Rightarrow> exn + jsval) \<Rightarrow> nat option \<Rightarrow> nat env" where
  "sampleEnv net yaml cancelAfter =
     \<lparr>requestUrl = (\<lambda>r w. (net r, Suc w)),
      cancelClicked = (\<lambda>w. case cancelAfter of None \<Rightarrow> False | Some k \<Rightarrow> k \<le> w),
      parseURL = hostOf,
      encodeURIComponent = percentEncode,
      responseContent = (\<lambda>t payload. Inr payload),
      legacyContent = (\<lambda>payload. Inr payload),
      typeError = Error (js ''not a function''),
      toStringOf = (\<lambda>v. Inr (js ''[object Object]'')),
      matchDelimited = (\<lambda>y. None),
      matchYamlFence = (\<lambda>y. None),
      matchFence = (\<lambda>y. None),
      parseYaml = yaml,
      stringifyYaml = (\<lambda>f. Inr (js ''title: Example'')),
      toISOString = (\<lambda>w. js ''2026-01-01T00:00:00.000Z''),
      getTime = (\<lambda>w. 1767225600000 + w),
      adapterExists = (\<lambda>p w. (Inr True, w)),
      createFolder = (\<lambda>p w. (Inr (), w)),
      getAbstractFileByPath = (\<lambda>p w. False),
      vaultCreate = (\<lambda>p c w. (Inr p, w)),
      createBinary = (\<lambda>p d w. (Inr (), w))\<rparr>"

text \<open>
  The settings a fresh installation has (\<open>DEFAULT_SETTINGS\<close>, with a short prompt
  template), and the same with both keys filled in.
\<close>

definition defaultSettings :: BookmarkCreatorSettings where
  "defaultSettings =
     \<lparr>bookmarkFolder = js ''Bookmarks'', attachmentFolder = js ''assets/images'',
      jinaApiKey = [], aiApiBaseUrl = js ''https://api.openai.com/v1'',
      aiApiModel = js ''gpt-3.5-turbo'', aiApiKey = [], aiPromptTemplate = js ''Describe the site.''\<rparr>"

definition keyedSettings :: BookmarkCreatorSettings where
  "keyedSettings = defaultSettings\<lparr>jinaApiKey := js ''jina-key'', aiApiKey := js ''ai-key''\<rparr>"

definition idle :: "WaitlistManager \<Rightarrow> nat state" where
  "idle q =
     \<lparr>isWorkflowRunning = False, runningInstanceId = None, isCancellationRequested = False,
      cancellingInstanceId = None, queue = q, createdNotes = [], ui = [], world = 0\<rparr>"

definition twoUrls :: WaitlistManager where
  "twoUrls = addAll [(js ''https://a.example/'', full), (js ''https://b.example/'', full)] emptyWaitlist"

definition okResponse :: "jsstring \<Rightarrow> response" where
  "okResponse payload = \<lparr>httpStatus = 200, responseText = payload, arrayBuffer = []\<rparr>"

definition exampleYaml :: "jsstring \<Rightarrow> exn + jsval" where
  "exampleYaml y =
     Inr (JObject [(js ''created'', JString (js ''2020-02-02'')),
                   (js ''title'', JString (js ''Example'')),
                   (js ''url'', JString (js ''https://b.example/''))])"

text \<open>The network of the first run: the reader fails for the first URL only.\<close>

definition firstFails :: "request \<Rightarrow> exn + response" where
  "firstFails r =
     (if reqUrl r = js ''https://r.jina.ai/https%3A%2F%2Fa.example%2F''
      then Inl (Error (js ''net::ERR_CONNECTION_RESET''))
      else Inr (okResponse (js ''title: Example'')))"

text \<open>A network that refuses the key, and one that answers every request with 503.\<close>

definition unauthorized :: "request \<Rightarrow> exn + response" where
  "unauthorized r = Inr \<lparr>httpStatus = 401, responseText = [], arrayBuffer = []\<rparr>"

definition unavailable :: "request \<Rightarrow> exn + response" where
  "unavailable r = Inr \<lparr>httpStatus = 503, responseText = [], arrayBuffer = []\<rparr>"

text \<open>A YAML document without a \<open>url\<close>.\<close>

definition titleOnlyYaml :: "jsstring \<Rightarrow> exn + jsval" where
  "titleOnlyYaml y = Inr (JObject [(js ''title'', JString (js ''Example''))])"

text \<open>Two instances, and a state in which the first holds the lock with a cancellation pending.\<close>

definition worker :: BookmarkWorkflow where
  "worker = \<lparr>instanceId = js ''k3j9x0qpz'', settings = keyedSettings\<rparr>"

definition rival :: BookmarkWorkflow where
  "rival = \<lparr>instanceId = js ''m2n8b7v6c'', settings = keyedSettings\<rparr>"

definition oneItem :: WaitlistManager where
  "oneItem = snd (add (js ''https://a.example/'') full emptyWaitlist)"

definition busy :: "nat state" where
  "busy = (idle oneItem)
     \<lparr>isWorkflowRunning := True, runningInstanceId := Some (js ''k3j9x0qpz''),
      isCancellationRequested := True, cancellingInstanceId := Some (js ''k3j9x0qpz'')\<rparr>"

text \<open>A listener that throws on every event, and the same states with it subscribed.\<close>

definition thrower :: listener where
  "thrower = \<lparr>listenerId = 1, reaction = (\<lambda>e. Some (Error (js ''listener failed'')))\<rparr>"

definition running :: "nat state" where
  "running = acquire worker (idle oneItem)"

definition disturbed :: "nat state" where
  "disturbed = acquire worker (idle (subscribe updateEvent thrower oneItem))"

section \<open>Unfolding the definitions\<close>

text \<open>The definitions a concrete run is computed with.\<close>

lemmas action_defs = ret_def throw_def andThen_def tryCatch_def tryFinally_def lift_def show_ui_def
  await_def onQueue_def

lemmas sample_defs = sampleEnv_def firstFails_def exampleYaml_def okResponse_def hostOf_def
  percentEncode_def encodeUnit_def percentByte_def unreserved_def hexDigit_def keyedSettings_def defaultSettings_def idle_def
  twoUrls_def worker_def rival_def busy_def oneItem_def emptyWaitlist_def unauthorized_def
  unavailable_def titleOnlyYaml_def thrower_def running_def disturbed_def

lemmas queue_defs = add_def read_def update_def getProperty_def functionStatus_def inheritedFunctions_def
  clear_def emit_def itemAt_def initialStatuses_def
  steps_def allSteps_def queueLength_def statusAt_def remove_def subscribe_def unsubscribe_def

lemmas model_defs = callApi_def sendRequest_def readResponse_def jinaRequest_def describe_def
  generateBookmarkYaml_def chatRequest_def prompt_def truncate_def typeNames_def
  ensureFolderExists_def ensureFileCanBeCreated_def createNoteFile_def downloadScreenshot_def
  buildNoteContent_def cleanYaml_def readNoteData_def parseGeneratedYaml_def toStr_def orElse_def
  createBookmarkNote_def executeStep_def progressTitle_def URLWorkflow_def iteration_def
  startURLWorkflow_def startYAMLWorkflow_def acquire_def release_def runningNotice_def
  requestCancellation_def shouldCancel_def resetCancellationState_def sanitizeFileName_def
  replaceIllegal_def trim_def isIllegalChar_def isWhiteSpace_def showInt_def searchWebInfo_def

section \<open>Properties of sanitizeFileName\<close>

text \<open>No two neighbours of a string are both whitespace.\<close>

fun noAdjacentWS :: "jsstring \<Rightarrow> bool" where
  "noAdjacentWS (a # b # r) = (\<not> (isWhiteSpace a \<and> isWhiteSpace b) \<and> noAdjacentWS (b # r))"
| "noAdjacentWS _ = True"

lemma ws_space: "isWhiteSpace 0x20" by (simp add: isWhiteSpace_def)
lemma ws_underscore: "\<not> isWhiteSpace 0x5F" by (simp add: isWhiteSpace_def)
lemma ill_space: "\<not> isIllegalChar 0x20" by (simp add: isIllegalChar_def)
lemma ill_underscore: "\<not> isIllegalChar 0x5F" by (simp add: isIllegalChar_def)

lemma collapse_hd: "s \<noteq> [] \<Longrightarrow> \<not> isWhiteSpace (hd s) \<Longrightarrow> collapseWhiteSpace s \<noteq> [] \<and> hd (collapseWhiteSpace s) = hd s"
  by (cases s) auto

lemma collapse_noAdj: "noAdjacentWS (collapseWhiteSpace s)"
proof (induction s rule: collapseWhiteSpace.induct)
  case 1
  then show ?case by simp
next
  case (2 c cs)
  show ?case
  proof (cases "isWhiteSpace c")
    case True
    let ?d = "dropWhile isWhiteSpace cs"
    have ih: "noAdjacentWS (collapseWhiteSpace ?d)" using 2 True by simp
    show ?thesis
    proof (cases ?d)
      case Nil
      then have "collapseWhiteSpace (c # cs) = [0x20]"
        using True by (simp only: collapseWhiteSpace.simps if_True)
      then show ?thesis by simp
    next
      case (Cons x xs)
      then have nx: "\<not> isWhiteSpace x" using hd_dropWhile[of isWhiteSpace cs] by simp
      have "collapseWhiteSpace (c # cs) = 0x20 # collapseWhiteSpace (x # xs)"
        using True Cons by (simp only: collapseWhiteSpace.simps if_True)
      moreover have "noAdjacentWS (collapseWhiteSpace (x # xs))" using ih Cons by simp
      ultimately show ?thesis using nx by simp
    qed
  next
    case False
    have ih: "noAdjacentWS (collapseWhiteSpace cs)" using 2 False by simp
    then show ?thesis using False by (cases "collapseWhiteSpace cs") auto
  qed
qed

lemma collapse_set: "c \<in> set (collapseWhiteSpace s) \<Longrightarrow> c = 0x20 \<or> (c \<in> set s \<and> \<not> isWhiteSpace c)"
proof (induction s rule: collapseWhiteSpace.induct)
  case 1
  then show ?case by simp
next
  case (2 d cs)
  then show ?case
    by (auto split: if_splits dest: set_dropWhileD)
qed

lemma collapse_fix:
  "noAdjacentWS s \<Longrightarrow> list_all (\<lambda>c. isWhiteSpace c = (c = 0x20)) s \<Longrightarrow> collapseWhiteSpace s = s"
  by (induction s rule: noAdjacentWS.induct) auto

lemma trim_prefix_suffix: "\<exists>a b. s = a @ trim s @ b"
proof -
  let ?y = "dropWhile isWhiteSpace s"
  have 1: "s = takeWhile isWhiteSpace s @ ?y" by simp
  have "rev ?y = takeWhile isWhiteSpace (rev ?y) @ dropWhile isWhiteSpace (rev ?y)" by simp
  then have "?y = rev (dropWhile isWhiteSpace (rev ?y)) @ rev (takeWhile isWhiteSpace (rev ?y))"
    by (metis rev_append rev_rev_ident)
  then have "?y = trim s @ rev (takeWhile isWhiteSpace (rev ?y))" by (simp add: trim_def)
  with 1 show ?thesis by metis
qed

lemma noAdj_append: "noAdjacentWS (a @ b) \<Longrightarrow> noAdjacentWS a \<and> noAdjacentWS b"
  by (induction a rule: noAdjacentWS.induct) (auto split: list.splits, (cases b; simp)+)

lemma dropWhile_hd_id: "xs \<noteq> [] \<Longrightarrow> \<not> P (hd xs) \<Longrightarrow> dropWhile P xs = xs"
  by (cases xs) auto

lemma trim_ends: 
  assumes "trim s \<noteq> []"
  shows "\<not> isWhiteSpace (hd (trim s)) \<and> \<not> isWhiteSpace (last (trim s))"
proof -
  let ?y = "dropWhile isWhiteSpace s"
  let ?z = "dropWhile isWhiteSpace (rev ?y)"
  have t: "trim s = rev ?z" by (simp add: trim_def)
  have z: "?z \<noteq> []" using assms t by simp
  have y: "?y \<noteq> []"
  proof
    assume "?y = []"
    then have "?z = []" by (simp only: rev.simps dropWhile.simps)
    with z show False by simp
  qed
  have "\<not> isWhiteSpace (hd ?z)" using z by (rule hd_dropWhile)
  then have l: "\<not> isWhiteSpace (last (trim s))" using z t by (simp add: last_rev)
  have "rev ?y = takeWhile isWhiteSpace (rev ?y) @ ?z" by simp
  then have "last (rev ?y) = last ?z" using z by (metis last_appendR)
  then have "hd ?y = last ?z" using y by (simp add: last_rev)
  moreover have "\<not> isWhiteSpace (hd ?y)" using y by (rule hd_dropWhile)
  ultimately have "\<not> isWhiteSpace (hd (trim s))" using z t by (simp add: hd_rev)
  with l show ?thesis by simp
qed

lemma trim_fix:
  assumes "s = [] \<or> (\<not> isWhiteSpace (hd s) \<and> \<not> isWhiteSpace (last s))"
  shows "trim s = s"
proof (cases "s = []")
  case True
  then show ?thesis by (simp add: trim_def)
next
  case False
  then have h: "\<not> isWhiteSpace (hd s)" and l: "\<not> isWhiteSpace (last s)" using assms by auto
  have 1: "dropWhile isWhiteSpace s = s" using False h by (rule dropWhile_hd_id)
  have "rev s \<noteq> []" using False by simp
  moreover have "\<not> isWhiteSpace (hd (rev s))" using False l by (simp add: hd_rev)
  ultimately have "dropWhile isWhiteSpace (rev s) = rev s" by (rule dropWhile_hd_id)
  with 1 show ?thesis by (simp add: trim_def)
qed

lemma replaceIllegal_legal: "list_all (\<lambda>c. \<not> isIllegalChar c) (replaceIllegal s)"
  by (induction s) (auto simp: replaceIllegal_def ill_underscore)

lemma replaceIllegal_fix: "list_all (\<lambda>c. \<not> isIllegalChar c) s \<Longrightarrow> replaceIllegal s = s"
  by (induction s) (auto simp: replaceIllegal_def)

lemma collapse_legal:
  "list_all (\<lambda>c. \<not> isIllegalChar c) s \<Longrightarrow> list_all (\<lambda>c. \<not> isIllegalChar c) (collapseWhiteSpace s)"
  using collapse_set ill_space by (fastforce simp: list_all_iff)

lemma collapse_spaces: "list_all (\<lambda>c. isWhiteSpace c = (c = 0x20)) (collapseWhiteSpace s)"
  using collapse_set ws_space by (fastforce simp: list_all_iff)

lemma trim_list_all: "list_all P s \<Longrightarrow> list_all P (trim s)"
  using trim_prefix_suffix[of s] by (metis list_all_append)

lemma trim_noAdj: "noAdjacentWS s \<Longrightarrow> noAdjacentWS (trim s)"
  using trim_prefix_suffix[of s] by (metis noAdj_append)

lemma noAdj_nth: "noAdjacentWS s \<Longrightarrow> Suc i < length s \<Longrightarrow> \<not> (isWhiteSpace (s ! i) \<and> isWhiteSpace (s ! Suc i))"
proof (induction s arbitrary: i rule: noAdjacentWS.induct)
  case (1 a b r)
  then show ?case by (cases i) auto
qed auto

text \<open>
  Claim C9. \<open>sanitizeFileName\<close> is idempotent, and for every input its output holds none
  of the characters \<open>< > : " / \ | ? *\<close>, no two consecutive whitespace characters, and no
  whitespace at its start or its end.
\<close>

theorem sanitizeFileName_idempotent_clean:
  "sanitizeFileName (sanitizeFileName s) = sanitizeFileName s
   \<and> list_all (\<lambda>c. \<not> isIllegalChar c) (sanitizeFileName s)
   \<and> \<not> (\<exists>i. Suc i < length (sanitizeFileName s)
           \<and> isWhiteSpace (sanitizeFileName s ! i) \<and> isWhiteSpace (sanitizeFileName s ! Suc i))
   \<and> (sanitizeFileName s = [] \<or>
        (\<not> isWhiteSpace (hd (sanitizeFileName s)) \<and> \<not> isWhiteSpace (last (sanitizeFileName s))))"
proof -
  let ?c = "collapseWhiteSpace (replaceIllegal s)"
  let ?r = "sanitizeFileName s"
  have r: "?r = trim ?c" by (simp add: sanitizeFileName_def)
  have legal: "list_all (\<lambda>c. \<not> isIllegalChar c) ?r"
    unfolding r by (intro trim_list_all collapse_legal replaceIllegal_legal)
  have spaces: "list_all (\<lambda>c. isWhiteSpace c = (c = 0x20)) ?r"
    unfolding r by (intro trim_list_all collapse_spaces)
  have adj: "noAdjacentWS ?r" unfolding r by (intro trim_noAdj collapse_noAdj)
  have ends: "?r = [] \<or> (\<not> isWhiteSpace (hd ?r) \<and> \<not> isWhiteSpace (last ?r))"
    unfolding r using trim_ends by blast
  have "sanitizeFileName ?r = trim (collapseWhiteSpace (replaceIllegal ?r))"
    by (simp add: sanitizeFileName_def)
  also have "\<dots> = trim (collapseWhiteSpace ?r)" using legal by (simp add: replaceIllegal_fix)
  also have "\<dots> = trim ?r" using adj spaces by (simp add: collapse_fix)
  also have "\<dots> = ?r" using ends by (rule trim_fix)
  finally have idem: "sanitizeFileName ?r = ?r" .
  show ?thesis using idem legal ends noAdj_nth[OF adj] by blast
qed

section \<open>Properties of the waiting list\<close>

lemma waitlist_addAll:
  "waitlist (addAll calls q) =
     waitlist q @ map (\<lambda>(u, t). \<lparr>url = u, statuses = initialStatuses t\<rparr>) calls"
  by (induction calls q rule: addAll.induct) (simp_all add: add_def emit_def Let_def split: sum.splits)

lemma listeners_addAll: "listeners (addAll calls q) = listeners q"
  by (induction calls q rule: addAll.induct) (simp_all add: add_def emit_def Let_def split: sum.splits)

lemma read_result:
  "fst (read n q)
     = (case callListeners (listeners q readEvent) (ReadEvent (itemAt (waitlist q) n) (length (waitlist q)) n) of
          Inl x \<Rightarrow> Inl x
        | Inr _ \<Rightarrow> Inr (itemAt (waitlist q) n))"
  by (simp add: read_def emit_def Let_def split: sum.splits)

text \<open>
  Claim C6. After any run of \<open>add\<close> calls (no \<open>remove\<close>, no \<open>clear\<close>), on a list that
  held \<open>length (waitlist q)\<close> items before, \<open>read\<close> at the place of the \<open>i\<close>-th call
  returns the item that call added, in the order of insertion, and at an index outside the
  bounds \<open>read\<close> returns \<open>null\<close> (\<open>None\<close>): an array read out of range is \<open>undefined\<close> and
  does not throw. Both hold when the listeners of the \<open>read\<close> event return on the event
  emitted; \<open>read\<close> emits before it returns and \<open>emit\<close> catches nothing, so when a listener
  throws, \<open>read\<close> throws what the listener threw, inside the bounds and outside.
\<close>

theorem read_after_adds:
  "(i < length calls
      \<and> callListeners (listeners q readEvent)
            (ReadEvent (Some \<lparr>url = fst (calls ! i), statuses = initialStatuses (snd (calls ! i))\<rparr>)
               (length (waitlist q) + length calls) (int (length (waitlist q)) + int i)) = Inr ()
      \<longrightarrow> fst (read (int (length (waitlist q)) + int i) (addAll calls q))
            = Inr (Some \<lparr>url = fst (calls ! i), statuses = initialStatuses (snd (calls ! i))\<rparr>))
   \<and> ((n < 0 \<or> int (length (waitlist q)) \<le> n)
        \<and> callListeners (listeners q readEvent) (ReadEvent None (length (waitlist q)) n) = Inr ()
      \<longrightarrow> fst (read n q) = Inr None)
   \<and> (\<forall>thrown. callListeners (listeners q readEvent)
               (ReadEvent (itemAt (waitlist q) n) (length (waitlist q)) n) = Inl thrown
          \<longrightarrow> fst (read n q) = Inl thrown)"
proof (intro conjI allI impI)
  let ?item = "\<lparr>url = fst (calls ! i), statuses = initialStatuses (snd (calls ! i))\<rparr>"
  assume a: "i < length calls
      \<and> callListeners (listeners q readEvent)
            (ReadEvent (Some ?item) (length (waitlist q) + length calls)
               (int (length (waitlist q)) + int i)) = Inr ()"
  then have i: "i < length calls" by simp
  have n: "nat (int (length (waitlist q)) + int i) = length (waitlist q) + i"
    by (simp add: nat_add_distrib)
  have "itemAt (waitlist (addAll calls q)) (int (length (waitlist q)) + int i)
          = Some (map (\<lambda>(u, t). \<lparr>url = u, statuses = initialStatuses t\<rparr>) calls ! i)"
    using i unfolding itemAt_def n waitlist_addAll by (simp add: nth_append)
  then have "itemAt (waitlist (addAll calls q)) (int (length (waitlist q)) + int i) = Some ?item"
    using i by (simp add: case_prod_unfold)
  moreover have "length (waitlist (addAll calls q)) = length (waitlist q) + length calls"
    by (simp add: waitlist_addAll)
  ultimately show "fst (read (int (length (waitlist q)) + int i) (addAll calls q)) = Inr (Some ?item)"
    using a by (simp add: read_result listeners_addAll)
next
  assume a: "(n < 0 \<or> int (length (waitlist q)) \<le> n)
        \<and> callListeners (listeners q readEvent) (ReadEvent None (length (waitlist q)) n) = Inr ()"
  then have "itemAt (waitlist q) n = None" by (auto simp: itemAt_def)
  then show "fst (read n q) = Inr None"
    using a by (simp add: read_result)
next
  fix thrown
  assume "callListeners (listeners q readEvent)
               (ReadEvent (itemAt (waitlist q) n) (length (waitlist q)) n) = Inl thrown"
  then show "fst (read n q) = Inl thrown"
    by (simp add: read_result)
qed

text \<open>
  Two additions to the empty list, read at 1, at 2 and at -1; and a list with a listener
  that throws.
\<close>

theorem read_after_adds_witness:
  "fst (read 1 (addAll [(js ''https://a.example/'', full), (js ''https://b.example/'', simple)] emptyWaitlist))
     = Inr (Some \<lparr>url = js ''https://b.example/'', statuses = initialStatuses simple\<rparr>)
   \<and> fst (read 2 (addAll [(js ''https://a.example/'', full), (js ''https://b.example/'', simple)] emptyWaitlist))
     = Inr None
   \<and> fst (read (-1) (addAll [(js ''https://a.example/'', full), (js ''https://b.example/'', simple)] emptyWaitlist))
     = Inr None
   \<and> fst (read 0 (subscribe readEvent thrower emptyWaitlist)) = Inl (Error (js ''listener failed''))"
proof -
  let ?calls = "[(js ''https://a.example/'', full), (js ''https://b.example/'', simple)]"
  let ?q = "addAll ?calls emptyWaitlist"
  let ?noisy = "subscribe readEvent thrower emptyWaitlist"
  have l0: "listeners emptyWaitlist readEvent = []" and w0: "waitlist emptyWaitlist = []"
    by (simp_all add: emptyWaitlist_def)
  have l2: "listeners ?q readEvent = []"
    by (simp add: listeners_addAll l0 del: addAll.simps)
  have len: "length (waitlist ?q) = 2"
    by (simp add: waitlist_addAll w0 del: addAll.simps)
  have 1: "fst (read 1 ?q) = Inr (Some \<lparr>url = js ''https://b.example/'', statuses = initialStatuses simple\<rparr>)"
    using read_after_adds [of 1 ?calls emptyWaitlist 0] by (simp add: l0 w0 del: addAll.simps)
  have 2: "fst (read 2 ?q) = Inr None"
    using read_after_adds [of 0 "[]" ?q 2] by (simp add: l2 len del: addAll.simps)
  have 3: "fst (read (-1) ?q) = Inr None"
    using read_after_adds [of 0 "[]" ?q "-1"] by (simp add: l2 len del: addAll.simps)
  have "callListeners (listeners ?noisy readEvent)
          (ReadEvent (itemAt (waitlist ?noisy) 0) (length (waitlist ?noisy)) 0)
        = Inl (Error (js ''listener failed''))"
    by (simp add: subscribe_def emptyWaitlist_def thrower_def)
  then have 4: "fst (read 0 ?noisy) = Inl (Error (js ''listener failed''))"
    using read_after_adds [of 0 "[]" ?noisy 0] by blast
  show ?thesis using 1 2 3 4 by simp
qed

text \<open>
  Without the condition on the listeners \<open>read\<close> can throw: on the empty list with a
  throwing listener of the \<open>read\<close> event, \<open>read(5)\<close>, out of the bounds, does not return
  \<open>null\<close>.
\<close>

theorem read_throws_with_listener:
  "fst (read 5 (subscribe readEvent thrower emptyWaitlist)) = Inl (Error (js ''listener failed''))"
  by (simp add: read_def emit_def subscribe_def emptyWaitlist_def thrower_def itemAt_def)

lemma itemAt_list_update:
  "itemAt (xs[i := x]) n = (if 0 \<le> n \<and> n < int (length xs) \<and> nat n = i then Some x else itemAt xs n)"
  by (auto simp: itemAt_def)



text \<open>
  What \<open>update\<close> does in each case: nothing when no item is at the index and when the name
  is found neither among the item's own steps nor on \<open>Object.prototype\<close>; for a step of
  the item, the list keeps its length, every other item is the same, the item keeps its
  URL and its other steps, the step has the new status, and one \<open>update\<close> event is emitted
  with the old and the new status; for a name that is not a step of the item but is
  inherited from \<open>Object.prototype\<close>, the items stay as they are, the status is written on
  the built-in object, and an \<open>update\<close> event is emitted.
\<close>

lemma update_frame:
  "(itemAt (waitlist q) n = None \<longrightarrow> update stepName newStatus n q = (Inr (), q))
   \<and> (\<forall>item. itemAt (waitlist q) n = Some item \<and> getProperty (inheritedStatus q) item stepName = None
        \<longrightarrow> update stepName newStatus n q = (Inr (), q))
   \<and> (\<forall>item old. itemAt (waitlist q) n = Some item \<and> statuses item stepName = Some old \<longrightarrow>
        length (waitlist (snd (update stepName newStatus n q))) = length (waitlist q)
        \<and> inheritedStatus (snd (update stepName newStatus n q)) = inheritedStatus q
        \<and> emitted (snd (update stepName newStatus n q))
            = emitted q @ [UpdateEvent (url item) stepName (Some (status old)) newStatus n (length (waitlist q))]
        \<and> fst (update stepName newStatus n q)
            = callListeners (listeners q updateEvent)
                (UpdateEvent (url item) stepName (Some (status old)) newStatus n (length (waitlist q)))
        \<and> (\<forall>j. j \<noteq> n \<longrightarrow> itemAt (waitlist (snd (update stepName newStatus n q))) j = itemAt (waitlist q) j)
        \<and> itemAt (waitlist (snd (update stepName newStatus n q))) n
            = Some (item\<lparr>statuses := (statuses item)(stepName \<mapsto> old\<lparr>status := newStatus\<rparr>)\<rparr>)
        \<and> statusAt (snd (update stepName newStatus n q)) n stepName = Some newStatus
        \<and> (\<forall>k. k \<noteq> stepName \<longrightarrow> statusAt (snd (update stepName newStatus n q)) n k = statusAt q n k))
   \<and> (\<forall>item. itemAt (waitlist q) n = Some item \<and> statuses item stepName = None
          \<and> (stepName = js ''__proto__'' \<or> stepName \<in> set inheritedFunctions) \<longrightarrow>
        waitlist (snd (update stepName newStatus n q)) = waitlist q
        \<and> inheritedStatus (snd (update stepName newStatus n q)) = (inheritedStatus q)(stepName \<mapsto> newStatus)
        \<and> (\<exists>old. emitted (snd (update stepName newStatus n q))
              = emitted q @ [UpdateEvent (url item) stepName old newStatus n (length (waitlist q))]))"
proof (intro conjI allI impI)
  assume "itemAt (waitlist q) n = None"
  then show "update stepName newStatus n q = (Inr (), q)"
    by (simp add: update_def)
next
  fix item
  assume "itemAt (waitlist q) n = Some item \<and> getProperty (inheritedStatus q) item stepName = None"
  then show "update stepName newStatus n q = (Inr (), q)"
    by (simp add: update_def)
next
  fix item old
  assume a: "itemAt (waitlist q) n = Some item \<and> statuses item stepName = Some old"
  let ?item' = "item\<lparr>statuses := (statuses item)(stepName \<mapsto> old\<lparr>status := newStatus\<rparr>)\<rparr>"
  let ?q' = "snd (update stepName newStatus n q)"
  have u: "update stepName newStatus n q
      = emit (UpdateEvent (url item) stepName (Some (status old)) newStatus n (length (waitlist q)))
          (q\<lparr>waitlist := (waitlist q)[nat n := ?item']\<rparr>)"
    using a by (simp add: update_def getProperty_def)
  have n: "0 \<le> n \<and> n < int (length (waitlist q))"
    using a by (auto simp: itemAt_def split: if_splits)
  show "length (waitlist ?q') = length (waitlist q)"
    by (simp add: u emit_def)
  show "inheritedStatus ?q' = inheritedStatus q"
    by (simp add: u emit_def)
  show "emitted ?q'
      = emitted q @ [UpdateEvent (url item) stepName (Some (status old)) newStatus n (length (waitlist q))]"
    by (simp add: u emit_def)
  show "fst (update stepName newStatus n q)
      = callListeners (listeners q updateEvent)
          (UpdateEvent (url item) stepName (Some (status old)) newStatus n (length (waitlist q)))"
    by (simp add: u emit_def)
  show at_n: "itemAt (waitlist ?q') n = Some ?item'"
    using n by (simp add: u emit_def itemAt_list_update)
  show "statusAt ?q' n stepName = Some newStatus"
    by (simp add: statusAt_def at_n)
  { fix j assume "j \<noteq> n"
    then show "itemAt (waitlist ?q') j = itemAt (waitlist q) j"
      using n by (auto simp: u emit_def itemAt_list_update) }
  { fix k assume "k \<noteq> stepName"
    then show "statusAt ?q' n k = statusAt q n k"
      using a by (simp add: statusAt_def at_n) }
next
  fix item
  assume a: "itemAt (waitlist q) n = Some item \<and> statuses item stepName = None
          \<and> (stepName = js ''__proto__'' \<or> stepName \<in> set inheritedFunctions)"
  let ?q' = "snd (update stepName newStatus n q)"
  have g: "getProperty (inheritedStatus q) item stepName
      = Some (if stepName = js ''__proto__'' then ObjectPrototype else BuiltinFunction stepName)"
    using a by (auto simp: getProperty_def)
  show "waitlist ?q' = waitlist q"
    using a g by (simp add: update_def emit_def)
  show "inheritedStatus ?q' = (inheritedStatus q)(stepName \<mapsto> newStatus)"
    using a g by (simp add: update_def emit_def)
  show "\<exists>old. emitted ?q'
              = emitted q @ [UpdateEvent (url item) stepName old newStatus n (length (waitlist q))]"
    using a g by (simp add: update_def emit_def)
qed

lemma oneItem_eq:
  "oneItem = \<lparr>waitlist = [\<lparr>url = js ''https://a.example/'', statuses = initialStatuses full\<rparr>],
      listeners = (\<lambda>ev. []),
      emitted = [AddEvent (js ''https://a.example/'') full
         \<lparr>url = js ''https://a.example/'', statuses = initialStatuses full\<rparr> 1],
      inheritedStatus = Map.empty\<rparr>"
  by (simp add: oneItem_def add_def emit_def emptyWaitlist_def Let_def)

lemma initialStatuses_full:
  "initialStatuses full (js ''get-web-content'') = Some \<lparr>step = js ''get-web-content'', status = pending\<rparr>"
  "initialStatuses full (js ''no-such-step'') = None"
  "initialStatuses full (js ''constructor'') = None"
  by (simp_all add: initialStatuses_def steps_def allSteps_def js_def)

text \<open>One freshly added item: a missing step, an index out of range, and a real update.\<close>

lemma update_frame_example:
  "update (js ''no-such-step'') failed 0 oneItem = (Inr (), oneItem)
   \<and> update (js ''get-web-content'') failed 1 oneItem = (Inr (), oneItem)
   \<and> statusAt (snd (update (js ''get-web-content'') processing 0 oneItem)) 0 (js ''get-web-content'') = Some processing
   \<and> statusAt (snd (update (js ''get-web-content'') processing 0 oneItem)) 0 (js ''get-web-rating'') = Some pending
   \<and> emitted (snd (update (js ''get-web-content'') processing 0 oneItem))
       = emitted oneItem @ [UpdateEvent (js ''https://a.example/'') (js ''get-web-content'') (Some pending) processing 0 1]"
proof -
  let ?item = "\<lparr>url = js ''https://a.example/'', statuses = initialStatuses full\<rparr>"
  let ?old = "\<lparr>step = js ''get-web-content'', status = pending\<rparr>"
  have at0: "itemAt (waitlist oneItem) 0 = Some ?item"
    by (simp add: oneItem_eq itemAt_def)
  have at1: "itemAt (waitlist oneItem) 1 = None"
    by (simp add: oneItem_eq itemAt_def)
  have len: "length (waitlist oneItem) = 1" and u: "url ?item = js ''https://a.example/''"
    by (simp_all add: oneItem_eq)
  have none: "getProperty (inheritedStatus oneItem) ?item (js ''no-such-step'') = None"
    by (simp add: getProperty_def initialStatuses_full) (simp add: inheritedFunctions_def js_def)
  have some: "statuses ?item (js ''get-web-content'') = Some ?old"
    by (simp add: initialStatuses_full)
  have rating: "statusAt oneItem 0 (js ''get-web-rating'') = Some pending"
    by (simp add: statusAt_def at0 initialStatuses_def steps_def allSteps_def js_def)
  have ne: "js ''get-web-rating'' \<noteq> js ''get-web-content''"
    by (simp add: js_def)
  have 1: "update (js ''no-such-step'') failed 0 oneItem = (Inr (), oneItem)"
    using update_frame [of oneItem 0 "js ''no-such-step''" failed] at0 none by blast
  have 2: "update (js ''get-web-content'') failed 1 oneItem = (Inr (), oneItem)"
    using update_frame [of oneItem 1 "js ''get-web-content''" failed] at1 by blast
  have 3: "statusAt (snd (update (js ''get-web-content'') processing 0 oneItem)) 0 (js ''get-web-content'') = Some processing
    \<and> statusAt (snd (update (js ''get-web-content'') processing 0 oneItem)) 0 (js ''get-web-rating'')
        = statusAt oneItem 0 (js ''get-web-rating'')
    \<and> emitted (snd (update (js ''get-web-content'') processing 0 oneItem))
        = emitted oneItem @ [UpdateEvent (url ?item) (js ''get-web-content'') (Some (status ?old)) processing 0
             (length (waitlist oneItem))]"
    using update_frame [of oneItem 0 "js ''get-web-content''" processing] at0 some ne by blast
  show ?thesis using 1 2 3 rating len by simp
qed

text \<open>
  Claim C7. \<open>update(stepId, status, i)\<close> with a step the item does not have is not always
  without effect. The status object is a plain object, and the guard \<open>item.status[step]\<close>
  also finds what the object inherits. On a list of one freshly added item, which has no
  step \<open>constructor\<close>, \<open>update('constructor', 'failed', 0)\<close> returns and leaves the items
  as they are, but it emits an \<open>update\<close> event, with the old status \<open>undefined\<close> and the
  new status \<open>failed\<close>, and it writes \<open>failed\<close> on the built-in \<open>Object\<close>: the manager is
  not left as it was.
\<close>

theorem update_inherited_key_emits:
  "statuses (hd (waitlist oneItem)) (js ''constructor'') = None
   \<and> update (js ''constructor'') failed 0 oneItem
       = (Inr (),
          oneItem\<lparr>emitted := emitted oneItem
                      @ [UpdateEvent (js ''https://a.example/'') (js ''constructor'') None failed 0 1],
                  inheritedStatus := [js ''constructor'' \<mapsto> failed]\<rparr>)
   \<and> update (js ''constructor'') failed 0 oneItem \<noteq> (Inr (), oneItem)
   \<and> waitlist (snd (update (js ''constructor'') failed 0 oneItem)) = waitlist oneItem"
proof -
  let ?item = "\<lparr>url = js ''https://a.example/'', statuses = initialStatuses full\<rparr>"
  have g: "getProperty Map.empty ?item (js ''constructor'') = Some (BuiltinFunction (js ''constructor''))"
    by (simp add: getProperty_def initialStatuses_full) (simp add: inheritedFunctions_def js_def)
  have 1: "statuses (hd (waitlist oneItem)) (js ''constructor'') = None"
    by (simp add: oneItem_eq initialStatuses_full)
  have 2: "update (js ''constructor'') failed 0 oneItem
       = (Inr (),
          oneItem\<lparr>emitted := emitted oneItem
                      @ [UpdateEvent (js ''https://a.example/'') (js ''constructor'') None failed 0 1],
                  inheritedStatus := [js ''constructor'' \<mapsto> failed]\<rparr>)"
    by (simp add: oneItem_eq update_def itemAt_def g emit_def functionStatus_def)
  have 3: "update (js ''constructor'') failed 0 oneItem \<noteq> (Inr (), oneItem)"
    unfolding 2 by (simp add: oneItem_eq)
  have 4: "waitlist (snd (update (js ''constructor'') failed 0 oneItem)) = waitlist oneItem"
    unfolding 2 by simp
  show ?thesis using 1 2 3 4 by simp
qed

section \<open>Properties of the lock and of executeStep\<close>

text \<open>
  Claim C3. While a run holds the lock, \<open>startURLWorkflow\<close> and \<open>startYAMLWorkflow\<close>
  return \<open>false\<close> at once; they show a notice and change nothing else: the owner of the
  lock, the cancellation flags and the waiting list with all step statuses stay as they
  were, so the lock still has its one owner.
\<close>

theorem second_start_refused:
  "isWorkflowRunning s \<Longrightarrow>
     startURLWorkflow env this s = (Inr False, s\<lparr>ui := ui s @ [runningNotice s]\<rparr>)
     \<and> startYAMLWorkflow env this yamlContent s = (Inr False, s\<lparr>ui := ui s @ [runningNotice s]\<rparr>)
     \<and> isWorkflowRunning (snd (startURLWorkflow env this s))
     \<and> runningInstanceId (snd (startURLWorkflow env this s)) = runningInstanceId s
     \<and> isCancellationRequested (snd (startURLWorkflow env this s)) = isCancellationRequested s
     \<and> cancellingInstanceId (snd (startURLWorkflow env this s)) = cancellingInstanceId s
     \<and> queue (snd (startURLWorkflow env this s)) = queue s
     \<and> isWorkflowRunning (snd (startYAMLWorkflow env this yamlContent s))
     \<and> runningInstanceId (snd (startYAMLWorkflow env this yamlContent s)) = runningInstanceId s
     \<and> isCancellationRequested (snd (startYAMLWorkflow env this yamlContent s)) = isCancellationRequested s
     \<and> cancellingInstanceId (snd (startYAMLWorkflow env this yamlContent s)) = cancellingInstanceId s
     \<and> queue (snd (startYAMLWorkflow env this yamlContent s)) = queue s"
  by (simp add: startURLWorkflow_def startYAMLWorkflow_def andThen_def show_ui_def ret_def)

text \<open>A second instance starts both workflows while the first holds the lock.\<close>

theorem second_start_refused_witness:
  "startURLWorkflow (sampleEnv firstFails exampleYaml None) rival busy
     = (Inr False, busy\<lparr>ui := [runningNotice busy]\<rparr>)
   \<and> startYAMLWorkflow (sampleEnv firstFails exampleYaml None) rival (js ''---'') busy
     = (Inr False, busy\<lparr>ui := [runningNotice busy]\<rparr>)
   \<and> runningInstanceId (snd (startURLWorkflow (sampleEnv firstFails exampleYaml None) rival busy))
     = Some (instanceId worker)
   \<and> queue (snd (startURLWorkflow (sampleEnv firstFails exampleYaml None) rival busy)) = oneItem"
proof -
  have b: "isWorkflowRunning busy" by (simp add: busy_def)
  have "ui busy = []" "runningInstanceId busy = Some (instanceId worker)" "queue busy = oneItem"
    by (simp_all add: busy_def idle_def worker_def)
  then show ?thesis
    using second_start_refused [OF b, of "sampleEnv firstFails exampleYaml None" rival "js ''---''"]
    by simp
qed

lemma release_flags:
  "\<not> isWorkflowRunning (release s) \<and> runningInstanceId (release s) = None
   \<and> \<not> isCancellationRequested (release s) \<and> cancellingInstanceId (release s) = None"
  by (simp add: release_def resetCancellationState_def)

lemma snd_tryFinally: "snd (tryFinally m f s) = f (snd (m s))"
  by (simp add: tryFinally_def split: prod.splits)

text \<open>
  Claim C5. A run of \<open>startURLWorkflow\<close> or \<open>startYAMLWorkflow\<close> that took the lock ends,
  whatever happened in it, with the lock released (\<open>isWorkflowRunning = false\<close>,
  \<open>runningInstanceId = null\<close>) and the cancellation reset
  (\<open>isCancellationRequested = false\<close>, \<open>cancellingInstanceId = null\<close>).
\<close>

theorem lock_released_after_run:
  "\<not> isWorkflowRunning s \<Longrightarrow>
     \<not> isWorkflowRunning (snd (startURLWorkflow env this s))
     \<and> runningInstanceId (snd (startURLWorkflow env this s)) = None
     \<and> \<not> isCancellationRequested (snd (startURLWorkflow env this s))
     \<and> cancellingInstanceId (snd (startURLWorkflow env this s)) = None
     \<and> \<not> isWorkflowRunning (snd (startYAMLWorkflow env this yamlContent s))
     \<and> runningInstanceId (snd (startYAMLWorkflow env this yamlContent s)) = None
     \<and> \<not> isCancellationRequested (snd (startYAMLWorkflow env this yamlContent s))
     \<and> cancellingInstanceId (snd (startYAMLWorkflow env this yamlContent s)) = None"
  by (simp add: startURLWorkflow_def startYAMLWorkflow_def snd_tryFinally release_flags)

text \<open>
  A batch of two URLs in which the user cancels during the first request: the run ends
  cancelled, with both items still queued.
\<close>

lemma cancelled_run:
  "(case startURLWorkflow (sampleEnv firstFails exampleYaml (Some 1)) worker (idle twoUrls) of
      (result, s') \<Rightarrow>
        result = Inr False
        \<and> length (waitlist (queue s')) = 2
        \<and> last (ui s') = Notice msgCancelled
        \<and> \<not> isWorkflowRunning s' \<and> \<not> isCancellationRequested s')"
  by (simp add: model_defs action_defs sample_defs queue_defs js_def Let_def batchLoop.simps decimal.simps)

text \<open>That cancelled run, and a YAML run that fails while parsing.\<close>

theorem lock_released_after_run_witness:
  "fst (startURLWorkflow (sampleEnv firstFails exampleYaml (Some 1)) worker (idle twoUrls)) = Inr False
   \<and> last (ui (snd (startURLWorkflow (sampleEnv firstFails exampleYaml (Some 1)) worker (idle twoUrls))))
       = Notice msgCancelled
   \<and> \<not> isWorkflowRunning (snd (startURLWorkflow (sampleEnv firstFails exampleYaml (Some 1)) worker (idle twoUrls)))
   \<and> runningInstanceId (snd (startURLWorkflow (sampleEnv firstFails exampleYaml (Some 1)) worker (idle twoUrls))) = None
   \<and> \<not> isCancellationRequested (snd (startURLWorkflow (sampleEnv firstFails exampleYaml (Some 1)) worker (idle twoUrls)))
   \<and> cancellingInstanceId (snd (startURLWorkflow (sampleEnv firstFails exampleYaml (Some 1)) worker (idle twoUrls))) = None
   \<and> \<not> isWorkflowRunning (snd (startYAMLWorkflow (sampleEnv firstFails titleOnlyYaml None) worker (js ''title: Example'') (idle emptyWaitlist)))
   \<and> cancellingInstanceId (snd (startYAMLWorkflow (sampleEnv firstFails titleOnlyYaml None) worker (js ''title: Example'') (idle emptyWaitlist))) = None"
proof -
  have 1: "\<not> isWorkflowRunning (idle twoUrls)" and 2: "\<not> isWorkflowRunning (idle emptyWaitlist)"
    by (simp_all add: idle_def)
  have 3: "fst (startURLWorkflow (sampleEnv firstFails exampleYaml (Some 1)) worker (idle twoUrls)) = Inr False
   \<and> last (ui (snd (startURLWorkflow (sampleEnv firstFails exampleYaml (Some 1)) worker (idle twoUrls))))
       = Notice msgCancelled"
    using cancelled_run by (simp split: prod.splits)
  show ?thesis
    using 3 lock_released_after_run [OF 1, of "sampleEnv firstFails exampleYaml (Some 1)" worker "[]"]
      lock_released_after_run [OF 2, of "sampleEnv firstFails titleOnlyYaml None" worker "js ''title: Example''"]
    by simp
qed





text \<open>
  \<open>executeStep\<close> takes no index and passes none to \<open>update\<close>: on a list of two items
  the step that changes is the step of the first item, and the second item stays
  \<open>pending\<close>.
\<close>

lemma executeStep_marks_first_item:
  "(case executeStep worker (js ''get-web-content'') (ret (js ''page'')) (acquire worker (idle twoUrls)) of
      (result, s') \<Rightarrow>
        result = Inr (js ''page'')
        \<and> statusAt (queue s') 0 (js ''get-web-content'') = Some completed
        \<and> statusAt (queue s') 1 (js ''get-web-content'') = Some pending)"
  by (simp add: executeStep_def shouldCancel_def acquire_def idle_def worker_def twoUrls_def
        emptyWaitlist_def action_defs queue_defs js_def Let_def)

section \<open>Properties of the AI service\<close>

text \<open>
  Claim C8. Before the request is sent, \<open>generateBookmarkYaml\<close> sets the page content into
  the prompt unchanged when it has at most 2000 code units, and otherwise its first 2000
  followed by \<open>...\<close>; the search text likewise with the limit 8000. The earlier service
  does the same with the limits 8000 and 2000. The prompt is the content of the one
  message of the request.
\<close>

theorem prompt_truncation:
  "prompt st link content search
     = aiPromptTemplate st @ promptContentHeader
       @ (if length content \<le> 2000 then content else take 2000 content @ js ''...'')
       @ promptSearchHeader
       @ (if length search \<le> 8000 then search else take 8000 search @ js ''...'')
       @ promptUrlHeader @ link @ [0xA]
   \<and> generateBookmarkYaml env st link content search
       = await env (requestUrl env (chatRequest st (prompt st link content search)))
   \<and> map_option messages (body (chatRequest st (prompt st link content search)))
       = Some [(js ''user'', prompt st link content search)]
   \<and> legacyPrompt st link content search
     = aiPromptTemplate st @ promptContentHeader
       @ (if length content \<le> 8000 then content else take 8000 content @ js ''...'')
       @ promptSearchHeader
       @ (if length search \<le> 2000 then search else take 2000 search @ js ''...'')
       @ promptUrlHeader @ link @ promptLegacyTail
   \<and> map_option messages (body (legacyChatRequest st link content search))
       = Some [(js ''user'', legacyPrompt st link content search)]"
  by (simp add: prompt_def legacyPrompt_def truncate_def generateBookmarkYaml_def chatRequest_def
        legacyChatRequest_def Let_def)





section \<open>Properties of parseGeneratedYaml\<close>

lemma field_created_ignored:
  "key \<noteq> js ''created'' \<Longrightarrow> field (JObject ((js ''created'', v) # kvs)) key = field (JObject kvs) key"
  by simp

lemma js_created_neq:
  "js ''title'' \<noteq> js ''created''" "js ''url'' \<noteq> js ''created''" "js ''description'' \<noteq> js ''created''"
  "js ''tags'' \<noteq> js ''created''" "js ''bookmarkNote'' \<noteq> js ''created''"
  by (simp_all add: js_def)

text \<open>
  Claim C10. When \<open>parseGeneratedYaml\<close> returns a record, its \<open>created\<close> is the time of the
  clock at the call, its title is the parsed title and its \<open>screenshotFileName\<close> is that
  title followed by \<open>.png\<close>; when the parsed title or URL is missing or empty the call
  throws; and a \<open>created\<close> entry in the parsed YAML changes nothing in the record.
\<close>

theorem parseGeneratedYaml_record:
  "(\<forall>noteData s'. parseGeneratedYaml env yamlContent s = (Inr noteData, s') \<longrightarrow>
      created noteData = toISOString env (world s)
      \<and> (\<exists>parsed titleText.
            parseYaml env (cleanYaml env yamlContent) = Inr parsed
            \<and> truthy (field parsed (js ''title'')) \<and> truthy (field parsed (js ''url''))
            \<and> title noteData = field parsed (js ''title'')
            \<and> toStr env (field parsed (js ''title'')) = Inr titleText
            \<and> screenshotFileName noteData = titleText @ js ''.png''))
   \<and> (\<forall>parsed. parseYaml env (cleanYaml env yamlContent) = Inr parsed
          \<and> (field parsed (js ''title'') \<in> {JUndefined, JNull, JString []}
               \<or> field parsed (js ''url'') \<in> {JUndefined, JNull, JString []}) \<longrightarrow>
        parseGeneratedYaml env yamlContent s = (Inl (Error msgParseFailed), s))
   \<and> readNoteData env now (JObject ((js ''created'', v) # kvs)) = readNoteData env now (JObject kvs)"
proof (intro conjI allI impI)
  fix noteData s'
  assume a: "parseGeneratedYaml env yamlContent s = (Inr noteData, s')"
  then obtain parsed where p: "parseYaml env (cleanYaml env yamlContent) = Inr parsed"
    and r: "readNoteData env (toISOString env (world s)) parsed = Inr noteData"
    by (auto simp: parseGeneratedYaml_def Let_def split: sum.splits)
  from r obtain titleText where t: "toStr env (field parsed (js ''title'')) = Inr titleText"
    and tr: "truthy (field parsed (js ''title''))" "truthy (field parsed (js ''url''))"
    and n: "noteData = \<lparr>created = toISOString env (world s),
                  title = field parsed (js ''title''),
                  noteUrl = field parsed (js ''url''),
                  description = orElse (field parsed (js ''description'')) (JString []),
                  tags = orElse (field parsed (js ''tags'')) (JArray []),
                  screenshotFileName = titleText @ js ''.png'',
                  bookmarkNote = orElse (field parsed (js ''bookmarkNote'')) (JString [])\<rparr>"
    by (auto simp: readNoteData_def split: if_splits sum.splits)
  show "created noteData = toISOString env (world s)" using n by simp
  show "\<exists>parsed titleText.
            parseYaml env (cleanYaml env yamlContent) = Inr parsed
            \<and> truthy (field parsed (js ''title'')) \<and> truthy (field parsed (js ''url''))
            \<and> title noteData = field parsed (js ''title'')
            \<and> toStr env (field parsed (js ''title'')) = Inr titleText
            \<and> screenshotFileName noteData = titleText @ js ''.png''"
    using p t tr n by auto
next
  fix parsed
  assume a: "parseYaml env (cleanYaml env yamlContent) = Inr parsed
          \<and> (field parsed (js ''title'') \<in> {JUndefined, JNull, JString []}
               \<or> field parsed (js ''url'') \<in> {JUndefined, JNull, JString []})"
  then have "\<not> truthy (field parsed (js ''title'')) \<or> \<not> truthy (field parsed (js ''url''))"
    by auto
  then have "isl (readNoteData env (toISOString env (world s)) parsed)"
    by (auto simp: readNoteData_def)
  then show "parseGeneratedYaml env yamlContent s = (Inl (Error msgParseFailed), s)"
    using a by (auto simp: parseGeneratedYaml_def Let_def split: sum.splits)
next
  show "readNoteData env now (JObject ((js ''created'', v) # kvs)) = readNoteData env now (JObject kvs)"
    unfolding readNoteData_def
    by (simp only: field_created_ignored [OF js_created_neq(1)] field_created_ignored [OF js_created_neq(2)]
          field_created_ignored [OF js_created_neq(3)] field_created_ignored [OF js_created_neq(4)]
          field_created_ignored [OF js_created_neq(5)] nullish.simps)
qed

text \<open>A document with an old \<open>created\<close> date, and one without a URL.\<close>

theorem parseGeneratedYaml_record_witness:
  "(case parseGeneratedYaml (sampleEnv firstFails exampleYaml None) (js ''created: 2020-02-02'') (idle emptyWaitlist) of
      (result, s') \<Rightarrow>
        map_sum id created result = Inr (js ''2026-01-01T00:00:00.000Z'')
        \<and> map_sum id screenshotFileName result = Inr (js ''Example.png''))
   \<and> parseGeneratedYaml (sampleEnv firstFails titleOnlyYaml None) (js ''title: Example'') (idle emptyWaitlist)
       = (Inl (Error msgParseFailed), idle emptyWaitlist)"
proof -
  let ?env = "sampleEnv firstFails exampleYaml None" and ?env' = "sampleEnv firstFails titleOnlyYaml None"
  let ?s = "idle emptyWaitlist"
  let ?parsed = "JObject [(js ''created'', JString (js ''2020-02-02'')),
                   (js ''title'', JString (js ''Example'')),
                   (js ''url'', JString (js ''https://b.example/''))]"
  obtain noteData s' where r: "parseGeneratedYaml ?env (js ''created: 2020-02-02'') ?s = (Inr noteData, s')"
    by (simp add: parseGeneratedYaml_def readNoteData_def cleanYaml_def toStr_def sampleEnv_def
          exampleYaml_def js_def Let_def)
  have clock: "toISOString ?env (world ?s) = js ''2026-01-01T00:00:00.000Z''"
    by (simp add: sampleEnv_def)
  have p: "parseYaml ?env (cleanYaml ?env (js ''created: 2020-02-02'')) = Inr ?parsed"
    by (simp add: sampleEnv_def exampleYaml_def)
  have t: "toStr ?env (field ?parsed (js ''title'')) = Inr (js ''Example'')"
    by (simp add: toStr_def js_def)
  from parseGeneratedYaml_record [of ?env "js ''created: 2020-02-02''" ?s] r
  have "created noteData = toISOString ?env (world ?s)
      \<and> (\<exists>parsed titleText.
            parseYaml ?env (cleanYaml ?env (js ''created: 2020-02-02'')) = Inr parsed
            \<and> toStr ?env (field parsed (js ''title'')) = Inr titleText
            \<and> screenshotFileName noteData = titleText @ js ''.png'')"
    by blast
  then have 1: "created noteData = js ''2026-01-01T00:00:00.000Z''
      \<and> screenshotFileName noteData = js ''Example.png''"
    using clock p t by (auto simp: js_def)
  have p': "parseYaml ?env' (cleanYaml ?env' (js ''title: Example'')) = Inr (JObject [(js ''title'', JString (js ''Example''))])"
    by (simp add: sampleEnv_def titleOnlyYaml_def)
  have "field (JObject [(js ''title'', JString (js ''Example''))]) (js ''url'') \<in> {JUndefined, JNull, JString []}"
    by (simp add: js_def)
  then have 2: "parseGeneratedYaml ?env' (js ''title: Example'') ?s = (Inl (Error msgParseFailed), ?s)"
    using parseGeneratedYaml_record [of ?env' "js ''title: Example''" ?s] p' by blast
  show ?thesis using r 1 2 by simp
qed

section \<open>A batch with a failing item\<close>

text \<open>
  \<open>URLWorkflow\<close> catches everything and returns \<open>false\<close>; \<open>startURLWorkflow\<close> drops that
  value, and its own \<open>catch\<close>, the only place that sets \<open>hasError\<close>, is never reached.
\<close>

lemma tryCatch_returns:
  assumes "\<And>e s'. \<not> isl (fst (h e s'))"
  shows "\<not> isl (fst (tryCatch m h s))"
  using assms by (auto simp: tryCatch_def split: prod.splits sum.splits)

lemma URLWorkflow_never_throws: "\<not> isl (fst (URLWorkflow env this link currentIndex s))"
proof -
  have "\<not> isl (fst ((andThen (show_ui (Notice (describe msgCreateFailed msgCreateFailedUnknown e)))
          (\<lambda>_. ret False)) s'))" for e and s' :: "'a state"
    by (simp add: andThen_def show_ui_def ret_def)
  then show ?thesis
    unfolding URLWorkflow_def by (intro tryCatch_returns)
qed

lemma iteration_keeps_hasError:
  "fst (iteration env this currentIndex hasError s) = Inr h \<Longrightarrow> h = hasError"
proof -
  assume a: "fst (iteration env this currentIndex hasError s) = Inr h"
  obtain found s' where r: "onQueue (read (int currentIndex)) s = (found, s')"
    by (cases "onQueue (read (int currentIndex)) s")
  show ?thesis
  proof (cases found)
    case (Inl thrown)
    then show ?thesis using a r by (auto simp: iteration_def andThen_def split: if_splits)
  next
    case (Inr item)
    show ?thesis
    proof (cases item)
      case None
      then show ?thesis using a r Inr by (auto simp: iteration_def andThen_def ret_def split: if_splits)
    next
      case (Some it)
      obtain r' s'' where u0: "URLWorkflow env this (url it) currentIndex s' = (r', s'')"
        by (cases "URLWorkflow env this (url it) currentIndex s'")
      then have "\<not> isl r'"
        using URLWorkflow_never_throws [of env this "url it" currentIndex s'] by simp
      then obtain b where "r' = Inr b" by (cases r') auto
      with u0 have u: "URLWorkflow env this (url it) currentIndex s' = (Inr b, s'')" by simp
      then show ?thesis
        using a r Inr Some by (auto simp: iteration_def tryCatch_def andThen_def ret_def split: if_splits)
    qed
  qed
qed

lemma batchLoop_keeps_hasError:
  "fst (batchLoop env this currentIndex hasError s) = Inr h \<Longrightarrow> h = hasError"
proof (induction env this currentIndex hasError s rule: batchLoop.induct)
  case (1 env this currentIndex hasError s)
  show ?case
  proof (cases "currentIndex < queueLength s")
    case False
    then show ?thesis using "1.prems" by (simp add: batchLoop.simps)
  next
    case True
    obtain r s' where it: "iteration env this currentIndex hasError s = (r, s')"
      by (cases "iteration env this currentIndex hasError s")
    show ?thesis
    proof (cases r)
      case (Inl e)
      then show ?thesis using "1.prems" True it by (simp add: batchLoop.simps)
    next
      case (Inr h')
      have h': "h' = hasError"
        using iteration_keeps_hasError [of env this currentIndex hasError s h'] it Inr by simp
      have "fst (batchLoop env this (currentIndex + 1) h' s') = Inr h"
        using "1.prems" True it Inr by (simp add: batchLoop.simps)
      then have "h = h'"
        using "1.IH" [OF True it [symmetric] Inr] by simp
      then show ?thesis using h' by simp
    qed
  qed
qed

text \<open>
  Claim C1. A batch of two URLs in which the content request of the first fails: the failure
  is caught and the second item is processed (its note is created), the waiting list is
  empty at the end, but the result of the batch is \<open>true\<close> and the closing notice says
  that all bookmarks were created, although the first item failed.
\<close>

theorem batch_reports_success_despite_failure:
  "(case startURLWorkflow (sampleEnv firstFails exampleYaml None) worker (idle twoUrls) of
      (result, s') \<Rightarrow>
        result = Inr True
        \<and> waitlist (queue s') = []
        \<and> UpdateEvent (js ''https://a.example/'') (js ''get-web-content'') (Some processing) failed 0 2
             \<in> set (emitted (queue s'))
        \<and> Notice (msgCreateFailed @ msgAiFailed @ js ''net::ERR_CONNECTION_RESET'') \<in> set (ui s')
        \<and> last (ui s') = Notice msgAllCreated
        \<and> createdNotes s' = [js ''Bookmarks/Example.md''])"
  by (simp add: model_defs action_defs sample_defs queue_defs js_def Let_def batchLoop.simps decimal.simps)

end
